theory Spec2Isabelle
  imports Main "HOL-Library.Word"
begin

unbundle bit_operations_syntax

section \<open>Python values and exceptions\<close>

text \<open>
  The documents that \<open>Response.json()\<close> and \<open>json.load\<close> return. Numbers are integers;
  JSON numbers with a fraction are outside the model. A dict is an association list
  read with \<open>map_of\<close>.
\<close>

datatype json =
    JNull
  | JBool bool
  | JInt int
  | JStr string
  | JList "json list"
  | JObj "(string \<times> json) list"

text \<open>
  The exception classes the code can raise. \<open>Exception\<close> is the class that
  \<open>api.py\<close> raises itself, with its message; the others come from Python's own
  operations on documents (\<open>KeyError\<close> with the missing key, \<open>TypeError\<close>,
  \<open>AttributeError\<close>), from \<open>Response.json()\<close> (\<open>JSONDecodeError\<close>), from the HTTP
  transport (\<open>RequestException\<close>), from boto3 (\<open>ClientError\<close>) and from \<open>open\<close>
  (\<open>OSError\<close>).
\<close>

datatype error =
    Exception string
  | KeyError string
  | TypeError
  | AttributeError
  | JSONDecodeError
  | RequestException string
  | ClientError string
  | OSError string

datatype exc_class =
    CException | CKeyError | CTypeError | CAttributeError | CJSONDecodeError
  | CRequestException | CClientError | COSError

fun class_of :: "error \<Rightarrow> exc_class" where
  "class_of (Exception m) = CException"
| "class_of (KeyError k) = CKeyError"
| "class_of TypeError = CTypeError"
| "class_of AttributeError = CAttributeError"
| "class_of JSONDecodeError = CJSONDecodeError"
| "class_of (RequestException m) = CRequestException"
| "class_of (ClientError m) = CClientError"
| "class_of (OSError m) = COSError"

text \<open>\<open>r[k]\<close> for a string key \<open>k\<close>: only a dict can be subscripted with a string.\<close>

fun py_getitem :: "json \<Rightarrow> string \<Rightarrow> error + json" where
  "py_getitem (JObj kvs) k = (case map_of kvs k of None \<Rightarrow> Inl (KeyError k) | Some v \<Rightarrow> Inr v)"
| "py_getitem v k = Inl TypeError"

fun is_substr :: "string \<Rightarrow> string \<Rightarrow> bool" where
  "is_substr k [] = (k = [])"
| "is_substr k (c # cs) = (take (length k) (c # cs) = k \<or> is_substr k cs)"

text \<open>
  \<open>k in r\<close> for a string \<open>k\<close>: key membership in a dict, element membership in a list,
  substring test in a string, \<open>TypeError\<close> on a value that is not iterable.
\<close>

fun py_contains :: "string \<Rightarrow> json \<Rightarrow> error + bool" where
  "py_contains k (JObj kvs) = Inr (map_of kvs k \<noteq> None)"
| "py_contains k (JList xs) = Inr (JStr k \<in> set xs)"
| "py_contains k (JStr s) = Inr (is_substr k s)"
| "py_contains k v = Inl TypeError"

text \<open>\<open>r.get(k, default)\<close>: only a dict has the method.\<close>

fun py_get :: "json \<Rightarrow> string \<Rightarrow> json \<Rightarrow> error + json" where
  "py_get (JObj kvs) k d = Inr (case map_of kvs k of None \<Rightarrow> d | Some v \<Rightarrow> v)"
| "py_get v k d = Inl AttributeError"

text \<open>
  \<open>a | b\<close> on dicts: a copy of \<open>a\<close> updated with every item of \<open>b\<close> in order, so the
  right operand wins on a key both have.
\<close>

fun dict_update :: "'k \<Rightarrow> 'v \<Rightarrow> ('k \<times> 'v) list \<Rightarrow> ('k \<times> 'v) list" where
  "dict_update k v [] = [(k, v)]"
| "dict_update k v (p # ps) = (if fst p = k then (k, v) # ps else p # dict_update k v ps)"

fun dict_or :: "('k \<times> 'v) list \<Rightarrow> ('k \<times> 'v) list \<Rightarrow> ('k \<times> 'v) list" where
  "dict_or a [] = a"
| "dict_or a ((k, v) # b) = dict_or (dict_update k v a) b"

text \<open>
  Formatting a value inside an f-string: a string is inserted as it is, every other value
  through Python's \<open>repr\<close>, which is a parameter of the model.
\<close>

fun py_str :: "(json \<Rightarrow> string) \<Rightarrow> json \<Rightarrow> string" where
  "py_str rp (JStr s) = s"
| "py_str rp v = rp v"

fun py_str_opt :: "(json \<Rightarrow> string) \<Rightarrow> json option \<Rightarrow> string" where
  "py_str_opt rp None = ''None''"
| "py_str_opt rp (Some v) = py_str rp v"

section \<open>Correlation ids\<close>

text \<open>
  \<open>uuid.uuid4()\<close> reads 16 random bytes as a 128-bit integer and forces the variant and
  version bits; \<open>.hex\<close> prints the integer as 32 lower-case hexadecimal digits.
\<close>

definition uuid4 :: "128 word \<Rightarrow> 128 word" where
  "uuid4 rnd =
     (((rnd AND NOT (push_bit 48 0xc000)) OR push_bit 48 0x8000)
        AND NOT (push_bit 64 0xf000)) OR push_bit 76 4"

definition hexchar :: "nat \<Rightarrow> char" where
  "hexchar d = ''0123456789abcdef'' ! d"

fun hex_digits :: "nat \<Rightarrow> nat \<Rightarrow> string" where
  "hex_digits 0 n = []"
| "hex_digits (Suc k) n = hex_digits k (n div 16) @ [hexchar (n mod 16)]"

definition uuid_hex :: "128 word \<Rightarrow> string" where
  "uuid_hex u = hex_digits 32 (unat u)"

definition upper_char :: "char \<Rightarrow> char" where
  "upper_char c =
     (if 97 \<le> (of_char c :: nat) \<and> (of_char c :: nat) \<le> 122
      then char_of ((of_char c :: nat) - 32) else c)"

definition py_upper :: "string \<Rightarrow> string" where
  "py_upper s = map upper_char s"

definition clientrequestid :: "128 word \<Rightarrow> string" where
  "clientrequestid rnd = take 16 (py_upper (uuid_hex (uuid4 rnd)))"

section \<open>Brand, command, client state\<close>

text \<open>
  \<open>Brand\<close> and \<open>Command\<close> are declared in modules that are not part of the source under
  study; the records hold the fields \<open>api.py\<close> reads.
\<close>

record Brand =
  region :: string
  login_api_key :: string
  login_url :: string
  token_url :: string
  api_url :: string
  api_key :: string
  auth_url :: string
  auth_api_key :: string

record Command =
  name :: string
  url :: string

text \<open>The signer \<open>AWSSigV4\<close> built by \<open>login\<close>, as the arguments it was built from.\<close>

record signer =
  sig_service :: string
  sig_region :: string
  aws_access_key_id :: string
  aws_secret_access_key :: string
  aws_session_token :: string

text \<open>
  The fields of \<open>API\<close>. Instants are integers counting microseconds; \<open>expire_time\<close> is
  \<open>None\<close> until a login stores one. The \<open>requests\<close> session belongs to the world below.
\<close>

record API =
  email :: string
  password :: string
  pin :: string
  brand :: Brand
  dev_mode :: bool
  uid :: "json option"
  aws_auth :: "signer option"
  cognito_client :: "string option"
  expire_time :: "int option"

definition init :: "string \<Rightarrow> string \<Rightarrow> string \<Rightarrow> Brand \<Rightarrow> bool \<Rightarrow> API" where
  "init e p n b d =
     \<lparr> email = e, password = p, pin = n, brand = b, dev_mode = d,
       uid = None, aws_auth = None, cognito_client = None, expire_time = None \<rparr>"

section \<open>Parameter and header defaults\<close>

definition with_default_params :: "API \<Rightarrow> (string \<times> json) list \<Rightarrow> (string \<times> json) list" where
  "with_default_params self params =
     dict_or params
       [ (''targetEnv'', JStr ''jssdk''),
         (''loginMode'', JStr ''standard''),
         (''sdk'', JStr ''js_latest''),
         (''authMode'', JStr ''cookie''),
         (''sdkBuild'', JStr ''12234''),
         (''format'', JStr ''json''),
         (''APIKey'', JStr (login_api_key (brand self))) ]"

section \<open>Freshness\<close>

definition safety_margin :: int where
  "safety_margin = 5 * 60 * 1000000"

text \<open>
  The condition of \<open>_refresh_token_if_needed\<close>:
  \<open>self.expire_time is None or now > self.expire_time - timedelta(minutes=5)\<close>.
\<close>

definition is_stale :: "int option \<Rightarrow> int \<Rightarrow> bool" where
  "is_stale e now = (case e of None \<Rightarrow> True | Some t \<Rightarrow> now > t - safety_margin)"

section \<open>The world outside the client\<close>

text \<open>
  What the \<open>requests\<close> session is asked to send: the keyword arguments of
  \<open>self.sess.request\<close>, \<open>None\<close> for an argument that is not passed.
\<close>

record request =
  req_method :: string
  req_url :: string
  req_params :: "(string \<times> json) list option"
  req_headers :: "(string \<times> string) list option"
  req_json :: "json option"
  req_auth :: "signer option"

text \<open>
  An HTTP response: its status code, and its body as \<open>.json()\<close> parses it (\<open>None\<close>
  when the body is not JSON).
\<close>

record http_response =
  status_code :: nat
  body :: "json option"

text \<open>
  The answer of \<open>get_credentials_for_identity\<close>; boto3 gives the members their types, and
  any member may be missing.
\<close>

record credentials =
  AccessKeyId :: "string option"
  SecretKey :: "string option"
  SessionToken :: "string option"
  Expiration :: "int option"

record cognito_response =
  Credentials :: "credentials option"

datatype event =
    HttpCall request
  | CognitoCall json json

text \<open>
  The world records every call that leaves the client, and counts the random draws.
  The environment answers the \<open>n\<close>-th call (\<open>Inl\<close>: the transport or the service
  raises), supplies the random bytes of the \<open>n\<close>-th draw, the fixture files of the
  offline mode (\<open>None\<close>: the file cannot be opened, \<open>Some None\<close>: it is not JSON) and
  Python's \<open>repr\<close>.
\<close>

record world =
  log :: "event list"
  draws :: nat

record env =
  http_resp :: "nat \<Rightarrow> string + http_response"
  cognito_resp :: "nat \<Rightarrow> string + cognito_response"
  urandom :: "nat \<Rightarrow> 128 word"
  fixture :: "string \<Rightarrow> json option option"
  py_repr :: "json \<Rightarrow> string"

section \<open>Computations that may raise\<close>

type_synonym 'a prog = "API \<times> world \<Rightarrow> (error + 'a) \<times> API \<times> world"

definition returnM :: "'a \<Rightarrow> 'a prog" where
  "returnM x = (\<lambda>st. (Inr x, st))"

definition raiseM :: "error \<Rightarrow> 'a prog" where
  "raiseM e = (\<lambda>st. (Inl e, st))"

definition bindM :: "'a prog \<Rightarrow> ('a \<Rightarrow> 'b prog) \<Rightarrow> 'b prog" where
  "bindM m f = (\<lambda>st. case m st of (Inl e, st') \<Rightarrow> (Inl e, st') | (Inr x, st') \<Rightarrow> f x st')"

definition liftE :: "error + 'a \<Rightarrow> 'a prog" where
  "liftE r = (\<lambda>st. (r, st))"

definition get_self :: "API prog" where
  "get_self = (\<lambda>(self, w). (Inr self, self, w))"

definition set_self :: "(API \<Rightarrow> API) \<Rightarrow> unit prog" where
  "set_self f = (\<lambda>(self, w). (Inr (), f self, w))"

text \<open>\<open>self.sess.request(...)\<close>: the call is logged and the environment answers it.\<close>

definition sess_request :: "env \<Rightarrow> request \<Rightarrow> http_response prog" where
  "sess_request ev rq =
     (\<lambda>(self, w).
        ((case http_resp ev (length (log w)) of
            Inl m \<Rightarrow> Inl (RequestException m)
          | Inr resp \<Rightarrow> Inr resp),
         self, w\<lparr>log := log w @ [HttpCall rq]\<rparr>))"

definition response_json :: "http_response \<Rightarrow> error + json" where
  "response_json resp = (case body resp of None \<Rightarrow> Inl JSONDecodeError | Some d \<Rightarrow> Inr d)"

definition get_credentials_for_identity :: "env \<Rightarrow> json \<Rightarrow> json \<Rightarrow> cognito_response prog" where
  "get_credentials_for_identity ev identity_id token =
     (\<lambda>(self, w).
        ((case cognito_resp ev (length (log w)) of
            Inl m \<Rightarrow> Inl (ClientError m)
          | Inr resp \<Rightarrow> Inr resp),
         self, w\<lparr>log := log w @ [CognitoCall identity_id token]\<rparr>))"

definition member :: "string \<Rightarrow> 'a option \<Rightarrow> error + 'a" where
  "member k x = (case x of None \<Rightarrow> Inl (KeyError k) | Some v \<Rightarrow> Inr v)"

definition aws_headers :: "string \<Rightarrow> string \<Rightarrow> (string \<times> string) list" where
  "aws_headers key rid =
     [ (''x-clientapp-name'', ''CWP''),
       (''x-clientapp-version'', ''1.0''),
       (''clientrequestid'', rid),
       (''x-api-key'', key),
       (''locale'', ''de_de''),
       (''x-originator-type'', ''web'') ]"

text \<open>\<open>_default_aws_headers\<close>: every call draws fresh random bytes for the correlation id.\<close>

definition default_aws_headers :: "env \<Rightarrow> string \<Rightarrow> (string \<times> string) list prog" where
  "default_aws_headers ev key =
     (\<lambda>(self, w).
        (Inr (aws_headers key (clientrequestid (urandom ev (draws w)))),
         self, w\<lparr>draws := Suc (draws w)\<rparr>))"

section \<open>Login\<close>

definition bootstrap_request :: "API \<Rightarrow> request" where
  "bootstrap_request self =
     \<lparr> req_method = ''GET'',
       req_url = login_url (brand self) @ ''/accounts.webSdkBootstrap'',
       req_params = Some [(''apiKey'', JStr (login_api_key (brand self)))],
       req_headers = None, req_json = None, req_auth = None \<rparr>"

definition login_request :: "API \<Rightarrow> request" where
  "login_request self =
     \<lparr> req_method = ''POST'',
       req_url = login_url (brand self) @ ''/accounts.login'',
       req_params = Some (with_default_params self
         [ (''loginID'', JStr (email self)),
           (''password'', JStr (password self)),
           (''sessionExpiration'', JInt 300),
           (''include'', JStr ''profile,data,emails,subscriptions,preferences'') ]),
       req_headers = None, req_json = None, req_auth = None \<rparr>"

definition jwt_request :: "API \<Rightarrow> json \<Rightarrow> request" where
  "jwt_request self login_token =
     \<lparr> req_method = ''POST'',
       req_url = login_url (brand self) @ ''/accounts.getJWT'',
       req_params = Some (with_default_params self
         [ (''login_token'', login_token),
           (''fields'', JStr ''profile.firstName,profile.lastName,profile.email,country,locale,data.disclaimerCodeGSDP'') ]),
       req_headers = None, req_json = None, req_auth = None \<rparr>"

definition token_request :: "API \<Rightarrow> (string \<times> string) list \<Rightarrow> json \<Rightarrow> request" where
  "token_request self hs id_token =
     \<lparr> req_method = ''POST'',
       req_url = token_url (brand self),
       req_params = None,
       req_headers = Some hs,
       req_json = Some (JObj [(''gigya_token'', id_token)]),
       req_auth = None \<rparr>"

definition new_signer :: "API \<Rightarrow> string \<Rightarrow> string \<Rightarrow> string \<Rightarrow> signer" where
  "new_signer self access_key secret_key session_token =
     \<lparr> sig_service = ''execute-api'',
       sig_region = region (brand self),
       aws_access_key_id = access_key,
       aws_secret_access_key = secret_key,
       aws_session_token = session_token \<rparr>"

definition login :: "env \<Rightarrow> unit prog" where
  "login ev =
     bindM (set_self (\<lambda>self. if cognito_client self = None
                               then self\<lparr>cognito_client := Some (region (brand self))\<rparr>
                               else self)) (\<lambda>_.
     bindM get_self (\<lambda>self.
     bindM (sess_request ev (bootstrap_request self)) (\<lambda>resp.
     bindM (liftE (response_json resp)) (\<lambda>r.
     bindM (liftE (py_getitem r ''statusCode'')) (\<lambda>sc.
     bindM (if sc \<noteq> JInt 200 then raiseM (Exception ''bootstrap failed'') else returnM ()) (\<lambda>_.
     bindM (sess_request ev (login_request self)) (\<lambda>resp.
     bindM (liftE (response_json resp)) (\<lambda>r.
     bindM (liftE (py_getitem r ''statusCode'')) (\<lambda>sc.
     bindM (if sc \<noteq> JInt 200 then raiseM (Exception ''login failed'') else returnM ()) (\<lambda>_.
     bindM (liftE (py_getitem r ''UID'')) (\<lambda>u.
     bindM (set_self (\<lambda>self. self\<lparr>uid := Some u\<rparr>)) (\<lambda>_.
     bindM (liftE (py_getitem r ''sessionInfo'')) (\<lambda>si.
     bindM (liftE (py_getitem si ''login_token'')) (\<lambda>login_token.
     bindM (sess_request ev (jwt_request self login_token)) (\<lambda>resp.
     bindM (liftE (response_json resp)) (\<lambda>r.
     bindM (liftE (py_getitem r ''statusCode'')) (\<lambda>sc.
     bindM (if sc \<noteq> JInt 200 then raiseM (Exception ''unable to obtain JWT'') else returnM ()) (\<lambda>_.
     bindM (default_aws_headers ev (api_key (brand self))) (\<lambda>hs.
     bindM (liftE (py_getitem r ''id_token'')) (\<lambda>id_token.
     bindM (sess_request ev (token_request self hs id_token)) (\<lambda>resp.
     bindM (liftE (response_json resp)) (\<lambda>r.
     bindM (liftE (py_getitem r ''IdentityId'')) (\<lambda>identity_id.
     bindM (liftE (py_getitem r ''Token'')) (\<lambda>token.
     bindM (get_credentials_for_identity ev identity_id token) (\<lambda>r.
     bindM (liftE (member ''Credentials'' (Credentials r))) (\<lambda>creds.
     bindM (liftE (member ''AccessKeyId'' (AccessKeyId creds))) (\<lambda>access_key.
     bindM (liftE (member ''SecretKey'' (SecretKey creds))) (\<lambda>secret_key.
     bindM (liftE (member ''SessionToken'' (SessionToken creds))) (\<lambda>session_token.
     bindM (set_self (\<lambda>self. self\<lparr>aws_auth :=
              Some (new_signer self access_key secret_key session_token)\<rparr>)) (\<lambda>_.
     bindM (liftE (member ''Expiration'' (Expiration creds))) (\<lambda>expiration.
     set_self (\<lambda>self. self\<lparr>expire_time := Some expiration\<rparr>))))))))))))))))))))))))))))))))"

definition refresh_token_if_needed :: "env \<Rightarrow> int \<Rightarrow> unit prog" where
  "refresh_token_if_needed ev now =
     bindM get_self (\<lambda>self.
       if dev_mode self then returnM ()
       else if is_stale (expire_time self) now then login ev
       else returnM ())"

section \<open>Read operations\<close>

definition open_json :: "env \<Rightarrow> string \<Rightarrow> error + json" where
  "open_json ev path =
     (case fixture ev path of
        None \<Rightarrow> Inl (OSError path)
      | Some None \<Rightarrow> Inl JSONDecodeError
      | Some (Some d) \<Rightarrow> Inr d)"

definition json_headers :: "(string \<times> string) list \<Rightarrow> (string \<times> string) list" where
  "json_headers hs = dict_or hs [(''content-type'', ''application/json'')]"

definition vehicles_request :: "env \<Rightarrow> API \<Rightarrow> (string \<times> string) list \<Rightarrow> request" where
  "vehicles_request ev self hs =
     \<lparr> req_method = ''GET'',
       req_url = api_url (brand self) @ ''/v4/accounts/''
                   @ py_str_opt (py_repr ev) (uid self) @ ''/vehicles'',
       req_params = Some [(''stage'', JStr ''ALL'')],
       req_headers = Some (json_headers hs),
       req_json = None,
       req_auth = aws_auth self \<rparr>"

text \<open>
  The signed GET of the three per-vehicle reads, which differ in the version prefix and
  in the path after the VIN.
\<close>

definition vehicle_request ::
  "env \<Rightarrow> API \<Rightarrow> string \<Rightarrow> string \<Rightarrow> string \<Rightarrow> (string \<times> string) list \<Rightarrow> request" where
  "vehicle_request ev self prefix vin suffix hs =
     \<lparr> req_method = ''GET'',
       req_url = api_url (brand self) @ prefix
                   @ py_str_opt (py_repr ev) (uid self) @ ''/vehicles/'' @ vin @ suffix,
       req_params = None,
       req_headers = Some (json_headers hs),
       req_json = None,
       req_auth = aws_auth self \<rparr>"

definition list_vehicles :: "env \<Rightarrow> int \<Rightarrow> json prog" where
  "list_vehicles ev now =
     bindM get_self (\<lambda>self.
       if dev_mode self then
         bindM (liftE (open_json ev ''test_list.json'')) (\<lambda>d.
         liftE (py_getitem d ''vehicles''))
       else
         bindM (refresh_token_if_needed ev now) (\<lambda>_.
         bindM get_self (\<lambda>self.
         bindM (default_aws_headers ev (api_key (brand self))) (\<lambda>hs.
         bindM (sess_request ev (vehicles_request ev self hs)) (\<lambda>resp.
         bindM (liftE (response_json resp)) (\<lambda>r.
         liftE (py_getitem r ''vehicles'')))))))"

definition get_vehicle :: "env \<Rightarrow> int \<Rightarrow> string \<Rightarrow> json prog" where
  "get_vehicle ev now vin =
     bindM get_self (\<lambda>self.
       if dev_mode self then
         liftE (open_json ev (''test_vehicle_'' @ vin @ ''.json''))
       else
         bindM (refresh_token_if_needed ev now) (\<lambda>_.
         bindM get_self (\<lambda>self.
         bindM (default_aws_headers ev (api_key (brand self))) (\<lambda>hs.
         bindM (sess_request ev
                  (vehicle_request ev self ''/v2/accounts/'' vin ''/status'' hs)) (\<lambda>resp.
         liftE (response_json resp))))))"

definition get_vehicle_status :: "env \<Rightarrow> int \<Rightarrow> string \<Rightarrow> json prog" where
  "get_vehicle_status ev now vin =
     bindM get_self (\<lambda>self.
       if dev_mode self then
         liftE (open_json ev (''test_vehicle_status_'' @ vin @ ''.json''))
       else
         bindM (refresh_token_if_needed ev now) (\<lambda>_.
         bindM get_self (\<lambda>self.
         bindM (default_aws_headers ev (api_key (brand self))) (\<lambda>hs.
         bindM (sess_request ev
                  (vehicle_request ev self ''/v1/accounts/'' vin ''/remote/status'' hs)) (\<lambda>resp.
         liftE (response_json resp))))))"

definition get_vehicle_location :: "env \<Rightarrow> int \<Rightarrow> string \<Rightarrow> json prog" where
  "get_vehicle_location ev now vin =
     bindM get_self (\<lambda>self.
       if dev_mode self then
         liftE (open_json ev (''test_vehicle_location_'' @ vin @ ''.json''))
       else
         bindM (refresh_token_if_needed ev now) (\<lambda>_.
         bindM get_self (\<lambda>self.
         bindM (default_aws_headers ev (api_key (brand self))) (\<lambda>hs.
         bindM (sess_request ev
                  (vehicle_request ev self ''/v1/accounts/'' vin ''/location/lastknown'' hs)) (\<lambda>resp.
         liftE (response_json resp))))))"

section \<open>Commands\<close>

definition b64_alphabet :: string where
  "b64_alphabet = ''ABCDEFGHIJKLMNOPQRSTUVWXYZabcdefghijklmnopqrstuvwxyz0123456789+/''"

definition b64_char :: "nat \<Rightarrow> char" where
  "b64_char n = b64_alphabet ! (n mod 64)"

fun b64_bytes :: "nat list \<Rightarrow> string" where
  "b64_bytes [] = []"
| "b64_bytes [a] = [b64_char (a div 4), b64_char ((a mod 4) * 16), CHR ''='', CHR ''='']"
| "b64_bytes [a, b] =
     [b64_char (a div 4), b64_char ((a mod 4) * 16 + b div 16), b64_char ((b mod 16) * 4),
      CHR ''='']"
| "b64_bytes (a # b # c # rest) =
     [b64_char (a div 4), b64_char ((a mod 4) * 16 + b div 16),
      b64_char ((b mod 16) * 4 + c div 64), b64_char (c mod 64)] @ b64_bytes rest"

definition b64encode :: "string \<Rightarrow> string" where
  "b64encode s = b64_bytes (map of_char s)"

definition pin_request :: "env \<Rightarrow> API \<Rightarrow> (string \<times> string) list \<Rightarrow> request" where
  "pin_request ev self hs =
     \<lparr> req_method = ''POST'',
       req_url = auth_url (brand self) @ ''/v1/accounts/''
                   @ py_str_opt (py_repr ev) (uid self) @ ''/ignite/pin/authenticate'',
       req_params = None,
       req_headers = Some (json_headers hs),
       req_json = Some (JObj [(''pin'', JStr (b64encode (pin self)))]),
       req_auth = aws_auth self \<rparr>"

definition command_request ::
  "env \<Rightarrow> API \<Rightarrow> string \<Rightarrow> Command \<Rightarrow> json \<Rightarrow> (string \<times> string) list \<Rightarrow> request" where
  "command_request ev self vin cmd tok hs =
     \<lparr> req_method = ''POST'',
       req_url = api_url (brand self) @ ''/v1/accounts/''
                   @ py_str_opt (py_repr ev) (uid self) @ ''/vehicles/'' @ vin @ ''/'' @ url cmd,
       req_params = None,
       req_headers = Some (json_headers hs),
       req_json = Some (JObj [(''command'', JStr (name cmd)), (''pinAuth'', tok)]),
       req_auth = aws_auth self \<rparr>"

definition command :: "env \<Rightarrow> int \<Rightarrow> string \<Rightarrow> Command \<Rightarrow> unit prog" where
  "command ev now vin cmd =
     bindM get_self (\<lambda>self.
       if dev_mode self then returnM ()
       else
         bindM (refresh_token_if_needed ev now) (\<lambda>_.
         bindM get_self (\<lambda>self.
         bindM (default_aws_headers ev (auth_api_key (brand self))) (\<lambda>hs.
         bindM (sess_request ev (pin_request ev self hs)) (\<lambda>resp.
         bindM (liftE (response_json resp)) (\<lambda>r.
         bindM (liftE (py_contains ''token'' r)) (\<lambda>has_token.
         bindM (if \<not> has_token then raiseM (Exception ''authentication failed'')
                else returnM ()) (\<lambda>_.
         bindM (liftE (py_getitem r ''token'')) (\<lambda>tok.
         bindM (default_aws_headers ev (api_key (brand self))) (\<lambda>hs.
         bindM (sess_request ev (command_request ev self vin cmd tok hs)) (\<lambda>resp.
         bindM (liftE (response_json resp)) (\<lambda>r.
         bindM (liftE (py_contains ''responseStatus'' r)) (\<lambda>has_status.
         bindM (if \<not> has_status then returnM True
                else bindM (liftE (py_getitem r ''responseStatus'')) (\<lambda>st.
                     returnM (st \<noteq> JStr ''pending''))) (\<lambda>rejected.
         if rejected then
           bindM (liftE (py_get r ''debugMsg'' (JStr ''unknown error''))) (\<lambda>err.
           raiseM (Exception (''command queuing failed: '' @ py_str (py_repr ev) err)))
         else returnM ()))))))))))))))"

section \<open>What the environment answers\<close>

text \<open>
  The document the client reads from the answer to the \<open>i\<close>-th call, its \<open>statusCode\<close>
  entry, and whether a document is an object with a given field.
\<close>

definition doc_at :: "env \<Rightarrow> nat \<Rightarrow> error + json" where
  "doc_at ev i =
     (case http_resp ev i of
        Inl m \<Rightarrow> Inl (RequestException m)
      | Inr resp \<Rightarrow> response_json resp)"

definition status_at :: "env \<Rightarrow> nat \<Rightarrow> error + json" where
  "status_at ev i = (case doc_at ev i of Inl e \<Rightarrow> Inl e | Inr d \<Rightarrow> py_getitem d ''statusCode'')"

definition has_field :: "json \<Rightarrow> string \<Rightarrow> bool" where
  "has_field r k = (case r of JObj kvs \<Rightarrow> map_of kvs k \<noteq> None | _ \<Rightarrow> False)"

text \<open>
  What each step of the login chain needs from the answers to the calls numbered from
  \<open>n\<close>: bootstrap, primary login, JWT exchange, token vending, credential issuance.
\<close>

definition bootstrap_ok :: "env \<Rightarrow> nat \<Rightarrow> bool" where
  "bootstrap_ok ev n = (status_at ev n = Inr (JInt 200))"

definition primary_login_ok :: "env \<Rightarrow> nat \<Rightarrow> bool" where
  "primary_login_ok ev n =
     (case doc_at ev (n + 1) of
        Inl e \<Rightarrow> False
      | Inr d \<Rightarrow>
          py_getitem d ''statusCode'' = Inr (JInt 200) \<and> has_field d ''UID''
          \<and> (case py_getitem d ''sessionInfo'' of
                Inl e \<Rightarrow> False
              | Inr si \<Rightarrow> has_field si ''login_token''))"

definition jwt_ok :: "env \<Rightarrow> nat \<Rightarrow> bool" where
  "jwt_ok ev n =
     (case doc_at ev (n + 2) of
        Inl e \<Rightarrow> False
      | Inr d \<Rightarrow> py_getitem d ''statusCode'' = Inr (JInt 200) \<and> has_field d ''id_token'')"

definition token_ok :: "env \<Rightarrow> nat \<Rightarrow> bool" where
  "token_ok ev n =
     (case doc_at ev (n + 3) of
        Inl e \<Rightarrow> False
      | Inr d \<Rightarrow> has_field d ''IdentityId'' \<and> has_field d ''Token'')"

definition credentials_ok :: "env \<Rightarrow> nat \<Rightarrow> bool" where
  "credentials_ok ev n =
     (case cognito_resp ev (n + 4) of
        Inl m \<Rightarrow> False
      | Inr cr \<Rightarrow>
          (case Credentials cr of
             None \<Rightarrow> False
           | Some c \<Rightarrow> AccessKeyId c \<noteq> None \<and> SecretKey c \<noteq> None
                        \<and> SessionToken c \<noteq> None \<and> Expiration c \<noteq> None))"

text \<open>
  The world after the PIN request and after the command request (one more draw and one
  more logged call each), the error a rejected command raises, and the error of \<open>r[k]\<close>
  on a document without the field \<open>k\<close>.
\<close>

definition pin_world :: "env \<Rightarrow> API \<Rightarrow> world \<Rightarrow> world" where
  "pin_world ev self w =
     w\<lparr>draws := Suc (draws w),
       log := log w @ [HttpCall (pin_request ev self
                 (aws_headers (auth_api_key (brand self))
                    (clientrequestid (urandom ev (draws w)))))]\<rparr>"

definition command_world :: "env \<Rightarrow> API \<Rightarrow> string \<Rightarrow> Command \<Rightarrow> json \<Rightarrow> world \<Rightarrow> world" where
  "command_world ev self vin cmd tok w =
     w\<lparr>draws := Suc (draws w),
       log := log w @ [HttpCall (command_request ev self vin cmd tok
                 (aws_headers (api_key (brand self))
                    (clientrequestid (urandom ev (draws w)))))]\<rparr>"

definition rejection :: "env \<Rightarrow> (string \<times> json) list \<Rightarrow> error" where
  "rejection ev kvs =
     Exception (''command queuing failed: ''
       @ (case map_of kvs ''debugMsg'' of
            None \<Rightarrow> ''unknown error''
          | Some d \<Rightarrow> py_str (py_repr ev) d))"

definition lookup_error :: "json \<Rightarrow> string \<Rightarrow> error" where
  "lookup_error d k = (case d of JObj kvs \<Rightarrow> KeyError k | _ \<Rightarrow> TypeError)"

text \<open>
  The credential store holds a credential or none: an expiry is stored only together with
  a signer.
\<close>

definition credential_inv :: "API \<Rightarrow> bool" where
  "credential_inv self = (expire_time self \<noteq> None \<longrightarrow> aws_auth self \<noteq> None)"

section \<open>Example sessions\<close>

text \<open>
  A brand, a client that has never logged in, a client holding a credential that expires
  in an hour, and an environment that answers the calls from a list.
\<close>

definition brand0 :: Brand where
  "brand0 =
     \<lparr> region = ''eu-west-1'', login_api_key = ''k1'', login_url = ''https://login'',
       token_url = ''https://token'', api_url = ''https://api'', api_key = ''k2'',
       auth_url = ''https://auth'', auth_api_key = ''k3'' \<rparr>"

definition client0 :: API where
  "client0 = init ''user@example.com'' ''secret'' ''1234'' brand0 False"

definition signer0 :: signer where
  "signer0 = new_signer client0 ''AK'' ''SK'' ''ST''"

definition client1 :: API where
  "client1 = client0\<lparr>uid := Some (JStr ''u1''), aws_auth := Some signer0,
                     cognito_client := Some ''eu-west-1'', expire_time := Some 3600000000\<rparr>"

definition world0 :: world where
  "world0 = \<lparr> log = [], draws = 0 \<rparr>"

definition remote_start :: Command where
  "remote_start = \<lparr> name = ''ROSTART'', url = ''remote'' \<rparr>"

definition answer :: "nat \<Rightarrow> json \<Rightarrow> string + http_response" where
  "answer c d = Inr \<lparr> status_code = c, body = Some d \<rparr>"

definition issued :: "int \<Rightarrow> string + cognito_response" where
  "issued e =
     Inr \<lparr> Credentials = Some \<lparr> AccessKeyId = Some ''AK'', SecretKey = Some ''SK'',
                                 SessionToken = Some ''ST'', Expiration = Some e \<rparr> \<rparr>"

definition script :: "(string + http_response) list \<Rightarrow> (string + cognito_response) \<Rightarrow> env" where
  "script hs c =
     \<lparr> http_resp = (\<lambda>n. if n < length hs then hs ! n else Inl ''connection refused''),
       cognito_resp = (\<lambda>n. c),
       urandom = (\<lambda>n. 0),
       fixture = (\<lambda>p. None),
       py_repr = (\<lambda>v. ''?'') \<rparr>"

definition bootstrap_doc :: json where
  "bootstrap_doc = JObj [(''statusCode'', JInt 200)]"

definition login_doc :: json where
  "login_doc =
     JObj [(''statusCode'', JInt 200), (''UID'', JStr ''u1''),
           (''sessionInfo'', JObj [(''login_token'', JStr ''lt'')])]"

definition jwt_doc :: json where
  "jwt_doc = JObj [(''statusCode'', JInt 200), (''id_token'', JStr ''jwt'')]"

definition token_doc :: json where
  "token_doc = JObj [(''IdentityId'', JStr ''eu:1''), (''Token'', JStr ''ft'')]"

definition refused_doc :: json where
  "refused_doc = JObj [(''statusCode'', JInt 403)]"

text \<open>
  Environments for a login: every step answered well, with the credential service answering
  \<open>c\<close>; the JWT exchange refused after a good primary login; the bootstrap refused.
\<close>

definition chain_env :: "(string + cognito_response) \<Rightarrow> env" where
  "chain_env c =
     script [answer 200 bootstrap_doc, answer 200 login_doc, answer 200 jwt_doc,
             answer 200 token_doc] c"

definition jwt_refused_env :: env where
  "jwt_refused_env =
     script [answer 200 bootstrap_doc, answer 200 login_doc, answer 403 refused_doc] (issued 0)"

definition bootstrap_refused_env :: env where
  "bootstrap_refused_env = script [answer 403 refused_doc] (issued 0)"

text \<open>
  More environments and documents: the primary login refused, the token endpoint answering
  403 without an identity or answering with an identity and no token, the answers of the
  PIN and command endpoints, and a vehicle endpoint answering 500.
\<close>

definition login_refused_env :: env where
  "login_refused_env = script [answer 200 bootstrap_doc, answer 403 refused_doc] (issued 0)"

definition forbidden_doc :: json where
  "forbidden_doc = JObj [(''message'', JStr ''Forbidden'')]"

definition token_refused_env :: env where
  "token_refused_env =
     script [answer 200 bootstrap_doc, answer 200 login_doc, answer 200 jwt_doc,
             answer 403 forbidden_doc] (issued 0)"

definition token_missing_env :: env where
  "token_missing_env =
     script [answer 200 bootstrap_doc, answer 200 login_doc, answer 200 jwt_doc,
             answer 200 (JObj [(''IdentityId'', JStr ''eu:1'')])] (issued 0)"

definition pin_doc :: json where
  "pin_doc = JObj [(''token'', JStr ''pt'')]"

definition pending_doc :: json where
  "pending_doc = JObj [(''responseStatus'', JStr ''pending'')]"

definition offline_doc :: json where
  "offline_doc = JObj [(''responseStatus'', JStr ''failed''), (''debugMsg'', JStr ''vehicle offline'')]"

definition server_error_doc :: json where
  "server_error_doc = JObj [(''message'', JStr ''Internal server error'')]"

definition server_error_env :: env where
  "server_error_env = script [answer 500 server_error_doc] (issued 0)"

section \<open>Stepping through a computation\<close>

text \<open>
  How each primitive computation followed by a continuation acts on a client and a world.
\<close>

lemma bind_liftE: "bindM (liftE r) f st = (case r of Inl e \<Rightarrow> (Inl e, st) | Inr x \<Rightarrow> f x st)"
  by (simp add: bindM_def liftE_def split: sum.splits)

lemma bind_set_self: "bindM (set_self g) f (s, w) = f () (g s, w)"
  by (simp add: bindM_def set_self_def)

lemma bind_get_self: "bindM get_self f (s, w) = f s (s, w)"
  by (simp add: bindM_def get_self_def)

lemma bind_sess_request: "bindM (sess_request ev rq) f (s, w) =
  (case http_resp ev (length (log w)) of
     Inl m \<Rightarrow> (Inl (RequestException m), s, w\<lparr>log := log w @ [HttpCall rq]\<rparr>)
   | Inr resp \<Rightarrow> f resp (s, w\<lparr>log := log w @ [HttpCall rq]\<rparr>))"
  by (simp add: bindM_def sess_request_def split: sum.splits)

lemma bind_cognito: "bindM (get_credentials_for_identity ev a b) f (s, w) =
  (case cognito_resp ev (length (log w)) of
     Inl m \<Rightarrow> (Inl (ClientError m), s, w\<lparr>log := log w @ [CognitoCall a b]\<rparr>)
   | Inr resp \<Rightarrow> f resp (s, w\<lparr>log := log w @ [CognitoCall a b]\<rparr>))"
  by (simp add: bindM_def get_credentials_for_identity_def split: sum.splits)

lemma bind_guard: "bindM (if c then raiseM e else returnM ()) f st = (if c then (Inl e, st) else f () st)"
  by (simp add: bindM_def raiseM_def returnM_def)

lemma bind_headers: "bindM (default_aws_headers ev key) f (s, w) =
  f (aws_headers key (clientrequestid (urandom ev (draws w)))) (s, w\<lparr>draws := Suc (draws w)\<rparr>)"
  by (simp add: bindM_def default_aws_headers_def)

lemma bind_returnM: "bindM (returnM x) f st = f x st"
  by (simp add: bindM_def returnM_def)

lemma bind_raiseM: "bindM (raiseM e) f st = (Inl e, st)"
  by (simp add: bindM_def raiseM_def)

lemma set_self_apply: "set_self g (s, w) = (Inr (), g s, w)"
  by (simp add: set_self_def)

lemma returnM_apply: "returnM x st = (Inr x, st)"
  by (simp add: returnM_def)

lemma raiseM_apply: "raiseM e st = (Inl e, st)"
  by (simp add: raiseM_def)

lemma liftE_apply: "liftE r st = (r, st)"
  by (simp add: liftE_def)

lemmas step_simps = set_self_apply returnM_apply raiseM_apply liftE_apply
  bind_liftE bind_set_self bind_get_self bind_sess_request bind_cognito bind_guard bind_headers
  bind_returnM bind_raiseM

section \<open>Dictionaries\<close>

lemma map_of_dict_update: "map_of (dict_update k v ps) = (map_of ps)(k \<mapsto> v)"
  by (induction ps) (auto simp: fun_eq_iff)

text \<open>
  C9. In \<open>_with_default_params\<close> the fixed parameters win: a key of \<open>params\<close> that is also
  a default key (\<open>targetEnv\<close>, \<open>loginMode\<close>, \<open>sdk\<close>, \<open>authMode\<close>, \<open>sdkBuild\<close>, \<open>format\<close>,
  \<open>APIKey\<close>) has the default value in the merged dictionary, and every other key has the
  value \<open>params\<close> gives it (or is absent when \<open>params\<close> lacks it).
\<close>

theorem with_default_params_defaults_win:
  "map_of (with_default_params self params) k =
     (if k = ''APIKey'' then Some (JStr (login_api_key (brand self)))
      else if k = ''format'' then Some (JStr ''json'')
      else if k = ''sdkBuild'' then Some (JStr ''12234'')
      else if k = ''authMode'' then Some (JStr ''cookie'')
      else if k = ''sdk'' then Some (JStr ''js_latest'')
      else if k = ''loginMode'' then Some (JStr ''standard'')
      else if k = ''targetEnv'' then Some (JStr ''jssdk'')
      else map_of params k)"
  by (simp add: with_default_params_def map_of_dict_update)

section \<open>The staleness test\<close>

text \<open>
  C2, as the code has it. A missing expiry is stale; a stored expiry \<open>e\<close> is stale at time
  \<open>t\<close> exactly when \<open>e - margin < t\<close>, with a margin of five minutes. The comparison is
  strict: at \<open>e - margin = t\<close> the credential still counts as fresh.
\<close>

theorem is_stale_iff_strict:
  "is_stale None t \<and> (is_stale (Some e) t \<longleftrightarrow> e - safety_margin < t)
     \<and> safety_margin = 300000000"
  by (simp add: is_stale_def safety_margin_def)

text \<open>
  The claim with \<open>\<le>\<close> fails at the boundary: with expiry \<open>300000000\<close> and time \<open>0\<close>,
  \<open>e - margin \<le> t\<close> holds and the credential is not stale.
\<close>

theorem is_stale_boundary_counterexample:
  "\<not> (is_stale (Some 300000000) 0 \<longleftrightarrow> 300000000 - safety_margin \<le> (0::int))"
  by (simp add: is_stale_def safety_margin_def)

section \<open>Correlation ids are well formed\<close>

lemma upper_char_letters:
  "upper_char CHR ''a'' = CHR ''A''" "upper_char CHR ''b'' = CHR ''B''"
  "upper_char CHR ''c'' = CHR ''C''" "upper_char CHR ''d'' = CHR ''D''"
  "upper_char CHR ''e'' = CHR ''E''" "upper_char CHR ''f'' = CHR ''F''"
  by code_simp+

lemma upper_char_digits:
  "upper_char CHR ''0'' = CHR ''0''" "upper_char CHR ''1'' = CHR ''1''"
  "upper_char CHR ''2'' = CHR ''2''" "upper_char CHR ''3'' = CHR ''3''"
  "upper_char CHR ''4'' = CHR ''4''" "upper_char CHR ''5'' = CHR ''5''"
  "upper_char CHR ''6'' = CHR ''6''" "upper_char CHR ''7'' = CHR ''7''"
  "upper_char CHR ''8'' = CHR ''8''" "upper_char CHR ''9'' = CHR ''9''"
  by (simp_all add: upper_char_def)

lemma upper_hexchar_nth:
  assumes "d < 16"
  shows "upper_char (hexchar d) = ''0123456789ABCDEF'' ! d"
proof -
  from assms have "d \<in> set [0..<16]" by simp
  then have "d \<in> {0,1,2,3,4,5,6,7,8,9,10,11,12,13,14,15}"
    by (simp add: upt_rec numeral_eq_Suc)
  then show ?thesis
    by (auto simp: hexchar_def upper_char_letters upper_char_digits)
qed

lemma upper_hexchar:
  assumes "d < 16"
  shows "upper_char (hexchar d) \<in> set ''0123456789ABCDEF''"
proof -
  from assms have "''0123456789ABCDEF'' ! d \<in> set ''0123456789ABCDEF''"
    by (intro nth_mem) simp
  with assms show ?thesis
    by (simp only: upper_hexchar_nth)
qed

lemma set_hex_digits: "c \<in> set (hex_digits k n) \<Longrightarrow> \<exists>d<16. c = hexchar d"
proof (induction k arbitrary: n)
  case 0
  then show ?case by simp
next
  case (Suc k)
  from Suc.prems have "c \<in> set (hex_digits k (n div 16)) \<or> c = hexchar (n mod 16)"
    by auto
  then show ?case
  proof
    assume "c \<in> set (hex_digits k (n div 16))"
    then show ?thesis by (rule Suc.IH)
  next
    assume "c = hexchar (n mod 16)"
    moreover have "n mod 16 < 16" by simp
    ultimately show ?thesis by blast
  qed
qed

lemma length_hex_digits: "length (hex_digits k n) = k"
  by (induction k arbitrary: n) auto

lemma length_clientrequestid: "length (clientrequestid rnd) = 16"
  by (simp add: clientrequestid_def py_upper_def uuid_hex_def length_hex_digits)

lemma set_clientrequestid: "set (clientrequestid rnd) \<subseteq> set ''0123456789ABCDEF''"
proof
  fix c
  assume "c \<in> set (clientrequestid rnd)"
  then have "c \<in> set (py_upper (uuid_hex (uuid4 rnd)))"
    unfolding clientrequestid_def by (rule in_set_takeD)
  then obtain c' where c': "c' \<in> set (hex_digits 32 (unat (uuid4 rnd)))" "c = upper_char c'"
    unfolding py_upper_def uuid_hex_def by auto
  from set_hex_digits [OF c'(1)] obtain d where "d < 16" "c' = hexchar d"
    by blast
  with c'(2) upper_hexchar [of d] show "c \<in> set ''0123456789ABCDEF''"
    by simp
qed

lemma take_hex_digits: "take k (hex_digits (k + j) n) = hex_digits k (n div 16 ^ j)"
proof (induction j arbitrary: n)
  case 0
  then show ?case by (simp add: length_hex_digits)
next
  case (Suc j)
  have "take k (hex_digits (Suc (k + j)) n) = take k (hex_digits (k + j) (n div 16))"
    by (simp add: length_hex_digits)
  also have "\<dots> = hex_digits k (n div 16 div 16 ^ j)"
    by (rule Suc.IH)
  also have "n div 16 div 16 ^ j = n div 16 ^ Suc j"
    by (simp add: div_mult2_eq)
  finally show ?case by simp
qed

lemma upper_hexchar_inj:
  assumes "a < 16" "b < 16" "upper_char (hexchar a) = upper_char (hexchar b)"
  shows "a = b"
proof -
  have d: "distinct ''0123456789ABCDEF''" by simp
  from assms have "''0123456789ABCDEF'' ! a = ''0123456789ABCDEF'' ! b"
    by (simp add: upper_hexchar_nth)
  with d assms(1,2) show ?thesis
    by (simp add: nth_eq_iff_index_eq)
qed

lemma hex_digits_inj:
  "map upper_char (hex_digits k a) = map upper_char (hex_digits k b) \<Longrightarrow>
     a mod 16 ^ k = b mod 16 ^ k"
proof (induction k arbitrary: a b)
  case 0
  then show ?case by simp
next
  case (Suc k)
  from Suc.prems have 1: "map upper_char (hex_digits k (a div 16))
                          = map upper_char (hex_digits k (b div 16))"
    and 2: "upper_char (hexchar (a mod 16)) = upper_char (hexchar (b mod 16))"
    by (simp_all add: length_hex_digits)
  from Suc.IH [OF 1] have 3: "a div 16 mod 16 ^ k = b div 16 mod 16 ^ k" .
  from 2 have 4: "a mod 16 = b mod 16"
    by (intro upper_hexchar_inj) simp_all
  have "a mod 16 ^ Suc k = 16 * (a div 16 mod 16 ^ k) + a mod 16"
    by (simp add: mod_mult2_eq)
  also have "\<dots> = 16 * (b div 16 mod 16 ^ k) + b mod 16"
    using 3 4 by simp
  also have "\<dots> = b mod 16 ^ Suc k"
    by (simp add: mod_mult2_eq)
  finally show ?case .
qed

lemma clientrequestid_eq:
  "clientrequestid rnd = map upper_char (hex_digits 16 (unat (uuid4 rnd) div 16 ^ 16))"
proof -
  have "take 16 (hex_digits (16 + 16) (unat (uuid4 rnd)))
          = hex_digits 16 (unat (uuid4 rnd) div 16 ^ 16)"
    by (rule take_hex_digits)
  then show ?thesis
    by (simp add: clientrequestid_def py_upper_def uuid_hex_def take_map)
qed

lemma clientrequestid_inj:
  assumes "clientrequestid a = clientrequestid b"
  shows "drop_bit 64 (uuid4 a) = drop_bit 64 (uuid4 b)"
proof -
  let ?x = "unat (uuid4 a) div 16 ^ 16" and ?y = "unat (uuid4 b) div 16 ^ 16"
  from assms have "?x mod 16 ^ 16 = ?y mod 16 ^ 16"
    unfolding clientrequestid_eq by (rule hex_digits_inj)
  moreover have "unat (uuid4 a) < 2 ^ 128" "unat (uuid4 b) < 2 ^ 128"
    using unsigned_less [of "uuid4 a"] unsigned_less [of "uuid4 b"] by simp_all
  then have "?x < 16 ^ 16" "?y < 16 ^ 16"
    by (simp_all add: less_mult_imp_div_less)
  ultimately have "?x = ?y" by simp
  then have "unat (uuid4 a) div 2 ^ 64 = unat (uuid4 b) div 2 ^ 64"
    by simp
  moreover have "unat (drop_bit 64 u) = unat u div 2 ^ 64" for u :: "128 word"
    by (subst unat_drop_bit_eq) (rule drop_bit_eq_div)
  ultimately have "unat (drop_bit 64 (uuid4 a)) = unat (drop_bit 64 (uuid4 b))"
    by (simp only:)
  then show ?thesis by (rule word_unat_eq_iff [THEN iffD2])
qed

lemma clientrequestid_high_bits:
  "clientrequestid a = clientrequestid b \<longleftrightarrow> drop_bit 64 (uuid4 a) = drop_bit 64 (uuid4 b)"
proof
  assume "clientrequestid a = clientrequestid b"
  then show "drop_bit 64 (uuid4 a) = drop_bit 64 (uuid4 b)"
    by (rule clientrequestid_inj)
next
  assume h: "drop_bit 64 (uuid4 a) = drop_bit 64 (uuid4 b)"
  have "unat (drop_bit 64 u) = unat u div 16 ^ 16" for u :: "128 word"
    by (subst unat_drop_bit_eq) (simp add: drop_bit_eq_div)
  with h have "unat (uuid4 a) div 16 ^ 16 = unat (uuid4 b) div 16 ^ 16"
    by metis
  then show "clientrequestid a = clientrequestid b"
    by (simp only: clientrequestid_eq)
qed

text \<open>
  C8. The correlation id that \<open>_default_aws_headers\<close> puts under \<open>clientrequestid\<close> is 16
  characters long and made of upper-case hexadecimal digits only, whatever the random
  bytes are. Each call of \<open>_default_aws_headers\<close> computes the id from a draw that no
  earlier call has read: the draw counter goes up by one, so two calls one after the
  other read two different draws. Two draws give the same id exactly when the upper 64
  bits of their UUIDs agree. The id stays in the header dictionary when the content type
  is merged in.
\<close>

theorem clientrequestid_well_formed:
  "length (clientrequestid rnd) = 16
   \<and> set (clientrequestid rnd) \<subseteq> set ''0123456789ABCDEF''
   \<and> default_aws_headers ev key (self, w)
       = (Inr (aws_headers key (clientrequestid (urandom ev (draws w)))), self,
          w\<lparr>draws := Suc (draws w)\<rparr>)
   \<and> bindM (default_aws_headers ev key) (\<lambda>h1.
        bindM (default_aws_headers ev key') (\<lambda>h2. returnM (h1, h2))) (self, w)
       = (Inr (aws_headers key (clientrequestid (urandom ev (draws w))),
               aws_headers key' (clientrequestid (urandom ev (Suc (draws w))))),
          self, w\<lparr>draws := Suc (Suc (draws w))\<rparr>)
   \<and> (clientrequestid a = clientrequestid b
        \<longleftrightarrow> drop_bit 64 (uuid4 a) = drop_bit 64 (uuid4 b))
   \<and> map_of (aws_headers key rid) ''clientrequestid'' = Some rid
   \<and> map_of (json_headers (aws_headers key rid)) ''clientrequestid'' = Some rid"
proof -
  have "default_aws_headers ev key (self, w)
       = (Inr (aws_headers key (clientrequestid (urandom ev (draws w)))), self,
          w\<lparr>draws := Suc (draws w)\<rparr>)"
    by (simp add: default_aws_headers_def)
  moreover have "bindM (default_aws_headers ev key) (\<lambda>h1.
        bindM (default_aws_headers ev key') (\<lambda>h2. returnM (h1, h2))) (self, w)
       = (Inr (aws_headers key (clientrequestid (urandom ev (draws w))),
               aws_headers key' (clientrequestid (urandom ev (Suc (draws w))))),
          self, w\<lparr>draws := Suc (Suc (draws w))\<rparr>)"
    by (simp add: bind_headers returnM_apply)
  moreover have "map_of (aws_headers key rid) ''clientrequestid'' = Some rid"
    "map_of (json_headers (aws_headers key rid)) ''clientrequestid'' = Some rid"
    by (simp_all add: aws_headers_def json_headers_def)
  ultimately show ?thesis
    using clientrequestid_high_bits [of a b] length_clientrequestid [of rnd]
      set_clientrequestid [of rnd]
    by (simp only: simp_thms)
qed

theorem clientrequestid_well_formed_witness:
  "drop_bit 64 (uuid4 0) \<noteq> drop_bit 64 (uuid4 (push_bit 64 1))
   \<and> clientrequestid 0 \<noteq> clientrequestid (push_bit 64 1)"
proof -
  have d: "drop_bit 64 (uuid4 0) \<noteq> drop_bit 64 (uuid4 (push_bit 64 1))"
    by (simp add: uuid4_def)
  with clientrequestid_well_formed [where a = 0 and b = "push_bit 64 1"] show ?thesis
    by blast
qed

section \<open>The offline mode of \<open>command\<close>\<close>

text \<open>
  C10. With \<open>dev_mode\<close> set, \<open>command\<close> returns at once without an error: the client
  state (\<open>uid\<close>, \<open>aws_auth\<close>, \<open>expire_time\<close> and every other field) is the one it was
  called in, and the world is unchanged, so no request was sent to the PIN endpoint or
  to the command endpoint and no correlation id was drawn.
\<close>

theorem command_dev_mode_noop:
  "dev_mode self \<Longrightarrow> command ev now vin cmd (self, w) = (Inr (), self, w)"
  by (simp add: command_def bindM_def get_self_def returnM_def)

theorem command_dev_mode_noop_witness:
  "dev_mode (client0\<lparr>dev_mode := True\<rparr>)
   \<and> command (script [] (issued 0)) 0 ''VIN1'' remote_start
         (client0\<lparr>dev_mode := True\<rparr>, world0)
       = (Inr (), client0\<lparr>dev_mode := True\<rparr>, world0)"
  using command_dev_mode_noop
    [of "client0\<lparr>dev_mode := True\<rparr>" "script [] (issued 0)" 0 "''VIN1''" remote_start world0]
  by simp

section \<open>The login chain\<close>

lemma py_getitem_has_field: "has_field d k \<longleftrightarrow> (\<exists>v. py_getitem d k = Inr v)"
  by (cases d) (auto simp: has_field_def split: option.splits)

text \<open>
  When \<open>login\<close> returns, every step got what it needs, the client holds the \<open>UID\<close> of the
  primary login and the credential the credential service issued, and five calls and one
  draw were made.
\<close>

lemma login_success_inv:
  "case login ev (self, w) of
     (Inl e, self', w') \<Rightarrow> True
   | (Inr x, self', w') \<Rightarrow>
       bootstrap_ok ev (length (log w)) \<and> primary_login_ok ev (length (log w))
       \<and> jwt_ok ev (length (log w)) \<and> token_ok ev (length (log w))
       \<and> credentials_ok ev (length (log w))
       \<and> (\<exists>d u. doc_at ev (length (log w) + 1) = Inr d \<and> py_getitem d ''UID'' = Inr u
              \<and> uid self' = Some u)
       \<and> (\<exists>cr c ak sk st e. cognito_resp ev (length (log w) + 4) = Inr cr
              \<and> Credentials cr = Some c
              \<and> AccessKeyId c = Some ak \<and> SecretKey c = Some sk \<and> SessionToken c = Some st
              \<and> Expiration c = Some e \<and> aws_auth self' = Some (new_signer self ak sk st)
              \<and> expire_time self' = Some e)
       \<and> length (log w') = length (log w) + 5 \<and> draws w' = Suc (draws w)"
  unfolding login_def
  by (simp add: step_simps doc_at_def status_at_def member_def new_signer_def eval_nat_numeral
      bootstrap_ok_def primary_login_ok_def jwt_ok_def token_ok_def credentials_ok_def
      py_getitem_has_field
    split: sum.split option.split)

text \<open>What a raising \<open>login\<close> leaves behind.\<close>

lemma login_failure_frame:
  "case login ev (self, w) of
     (Inr x, self', w') \<Rightarrow> True
   | (Inl e, self', w') \<Rightarrow>
       expire_time self' = expire_time self
       \<and> (e \<noteq> KeyError ''Expiration'' \<longrightarrow> aws_auth self' = aws_auth self)
       \<and> (status_at ev (length (log w)) \<noteq> Inr (JInt 200)
            \<or> status_at ev (length (log w) + 1) \<noteq> Inr (JInt 200) \<longrightarrow> uid self' = uid self)
       \<and> (uid self' = uid self
            \<or> (\<exists>d u. doc_at ev (length (log w) + 1) = Inr d \<and> py_getitem d ''UID'' = Inr u
                  \<and> uid self' = Some u))
       \<and> \<not> (bootstrap_ok ev (length (log w)) \<and> primary_login_ok ev (length (log w))
              \<and> jwt_ok ev (length (log w)) \<and> token_ok ev (length (log w))
              \<and> credentials_ok ev (length (log w)))"
  unfolding login_def
  by (simp add: step_simps doc_at_def status_at_def member_def eval_nat_numeral
      bootstrap_ok_def primary_login_ok_def jwt_ok_def token_ok_def credentials_ok_def
      py_getitem_has_field
    split: sum.split option.split)

lemmas example_defs = brand0_def client0_def client1_def signer0_def world0_def answer_def
  issued_def script_def bootstrap_doc_def login_doc_def jwt_doc_def token_doc_def
  refused_doc_def init_def remote_start_def

text \<open>
  A new client holds no credential, and \<open>login\<close> keeps the store well formed whether it
  returns or raises: it assigns the signer before the expiry.
\<close>

lemma credential_inv_init: "credential_inv (init e p n b d)"
  by (simp add: credential_inv_def init_def)

lemma login_credential_inv:
  "case login ev (self, w) of
     (r, self', w') \<Rightarrow> credential_inv self \<longrightarrow> credential_inv self'"
  unfolding login_def
  by (simp add: step_simps credential_inv_def split: sum.split)

lemma client0_fields:
  "\<not> dev_mode client0" "expire_time client0 = None" "aws_auth client0 = None"
  "uid client0 = None" "credential_inv client0"
  by (simp_all add: client0_def init_def credential_inv_def)

lemma client1_fields:
  "\<not> dev_mode client1" "expire_time client1 = Some 3600000000"
  "aws_auth client1 = Some signer0" "uid client1 = Some (JStr ''u1'')"
  "credential_inv client1" "brand client1 = brand0" "pin client1 = ''1234''"
  by (simp_all add: client1_def client0_def init_def credential_inv_def)

lemma login_chain_env:
  "login (chain_env (issued e)) (client0, world0) =
     (Inr (),
      client0\<lparr>uid := Some (JStr ''u1''), aws_auth := Some signer0,
               cognito_client := Some ''eu-west-1'', expire_time := Some e\<rparr>,
      \<lparr>log = [HttpCall (bootstrap_request (client0\<lparr>cognito_client := Some ''eu-west-1''\<rparr>)),
              HttpCall (login_request (client0\<lparr>cognito_client := Some ''eu-west-1''\<rparr>)),
              HttpCall (jwt_request (client0\<lparr>cognito_client := Some ''eu-west-1''\<rparr>)
                          (JStr ''lt'')),
              HttpCall (token_request (client0\<lparr>cognito_client := Some ''eu-west-1''\<rparr>)
                          (aws_headers ''k2'' (clientrequestid 0)) (JStr ''jwt'')),
              CognitoCall (JStr ''eu:1'') (JStr ''ft'')],
        draws = Suc 0\<rparr>)"
  unfolding login_def
  by (simp add: step_simps chain_env_def example_defs response_json_def member_def new_signer_def)

lemma login_jwt_refused:
  "login jwt_refused_env (client0, world0) =
     (Inl (Exception ''unable to obtain JWT''),
      client0\<lparr>uid := Some (JStr ''u1''), cognito_client := Some ''eu-west-1''\<rparr>,
      \<lparr>log = [HttpCall (bootstrap_request (client0\<lparr>cognito_client := Some ''eu-west-1''\<rparr>)),
              HttpCall (login_request (client0\<lparr>cognito_client := Some ''eu-west-1''\<rparr>)),
              HttpCall (jwt_request (client0\<lparr>cognito_client := Some ''eu-west-1''\<rparr>)
                          (JStr ''lt''))],
        draws = 0\<rparr>)"
  unfolding login_def
  by (simp add: step_simps jwt_refused_env_def example_defs response_json_def member_def)

lemma login_bootstrap_refused:
  "login bootstrap_refused_env (client0, world0) =
     (Inl (Exception ''bootstrap failed''),
      client0\<lparr>cognito_client := Some ''eu-west-1''\<rparr>,
      \<lparr>log = [HttpCall (bootstrap_request (client0\<lparr>cognito_client := Some ''eu-west-1''\<rparr>))],
        draws = 0\<rparr>)"
  unfolding login_def
  by (simp add: step_simps bootstrap_refused_env_def example_defs response_json_def member_def)

text \<open>
  C3, as the code has it. \<open>login\<close> raises whenever one of its five steps does not get what
  it needs. When it raises, \<open>expire_time\<close> is what it was before the call; \<open>aws_auth\<close> is
  what it was unless the error is the missing \<open>Expiration\<close> member; \<open>uid\<close> is what it was
  when the bootstrap or the primary login did not answer with status 200, and in every
  case \<open>uid\<close> is either unchanged or the \<open>UID\<close> of the primary login's answer, which the
  code stores before it goes on to the later steps.
\<close>

theorem login_failure_state:
  "(\<not> (bootstrap_ok ev (length (log w)) \<and> primary_login_ok ev (length (log w))
        \<and> jwt_ok ev (length (log w)) \<and> token_ok ev (length (log w))
        \<and> credentials_ok ev (length (log w)))
      \<longrightarrow> (\<exists>e. fst (login ev (self, w)) = Inl e))
   \<and> (login ev (self, w) = (Inl e, self', w') \<longrightarrow>
        expire_time self' = expire_time self
        \<and> (e \<noteq> KeyError ''Expiration'' \<longrightarrow> aws_auth self' = aws_auth self)
        \<and> (status_at ev (length (log w)) \<noteq> Inr (JInt 200)
             \<or> status_at ev (length (log w) + 1) \<noteq> Inr (JInt 200) \<longrightarrow> uid self' = uid self)
        \<and> (uid self' = uid self
             \<or> (\<exists>d u. doc_at ev (length (log w) + 1) = Inr d \<and> py_getitem d ''UID'' = Inr u
                   \<and> uid self' = Some u)))"
proof (cases "login ev (self, w)")
  case (fields r s1 w1)
  show ?thesis
  proof (cases r)
    case (Inl e1)
    with fields login_failure_frame [where ev = ev and self = self and w = w]
    show ?thesis by auto
  next
    case (Inr x)
    with fields login_success_inv [where ev = ev and self = self and w = w]
    show ?thesis by auto
  qed
qed

theorem login_failure_state_witness:
  "\<not> jwt_ok jwt_refused_env (length (log world0))
   \<and> fst (login jwt_refused_env (client0, world0)) = Inl (Exception ''unable to obtain JWT'')
   \<and> expire_time (fst (snd (login jwt_refused_env (client0, world0)))) = expire_time client0
   \<and> aws_auth (fst (snd (login jwt_refused_env (client0, world0)))) = aws_auth client0
   \<and> uid (fst (snd (login jwt_refused_env (client0, world0)))) = Some (JStr ''u1'')
   \<and> status_at bootstrap_refused_env (length (log world0)) \<noteq> Inr (JInt 200)
   \<and> fst (login bootstrap_refused_env (client0, world0)) = Inl (Exception ''bootstrap failed'')
   \<and> uid (fst (snd (login bootstrap_refused_env (client0, world0)))) = uid client0"
proof -
  let ?s1 = "client0\<lparr>uid := Some (JStr ''u1''), cognito_client := Some ''eu-west-1''\<rparr>"
  let ?s2 = "client0\<lparr>cognito_client := Some ''eu-west-1''\<rparr>"
  have nj: "\<not> jwt_ok jwt_refused_env (length (log world0))"
    by (simp add: jwt_ok_def doc_at_def jwt_refused_env_def example_defs response_json_def)
  have nb: "status_at bootstrap_refused_env (length (log world0)) \<noteq> Inr (JInt 200)"
    by (simp add: status_at_def doc_at_def bootstrap_refused_env_def example_defs
        response_json_def)
  note a = login_failure_state [where ev = jwt_refused_env and self = client0 and w = world0
      and e = "Exception ''unable to obtain JWT''" and self' = ?s1]
  note b = login_failure_state [where ev = bootstrap_refused_env and self = client0
      and w = world0 and e = "Exception ''bootstrap failed''" and self' = ?s2]
  from a nj have "\<exists>e. fst (login jwt_refused_env (client0, world0)) = Inl e"
    by blast
  moreover from a login_jwt_refused
  have "expire_time ?s1 = expire_time client0 \<and> aws_auth ?s1 = aws_auth client0"
    by blast
  moreover from b nb login_bootstrap_refused have "uid ?s2 = uid client0"
    by blast
  ultimately show ?thesis
    using nj nb by (simp add: login_jwt_refused login_bootstrap_refused)
qed

text \<open>
  The claim that a failed login leaves the whole session state as it was fails when the JWT
  exchange is refused after a good primary login: the client had no \<open>uid\<close> before the
  call and holds the \<open>UID\<close> of the login answer after it.
\<close>

theorem login_partial_uid_counterexample:
  "fst (login jwt_refused_env (client0, world0)) = Inl (Exception ''unable to obtain JWT'')
   \<and> uid client0 = None
   \<and> uid (fst (snd (login jwt_refused_env (client0, world0)))) = Some (JStr ''u1'')"
  by (simp add: login_jwt_refused) (simp add: client0_def init_def)

section \<open>The freshness check\<close>

lemma refresh_unfold:
  "refresh_token_if_needed ev now (self, w) =
     (if dev_mode self then (Inr (), self, w)
      else if is_stale (expire_time self) now then login ev (self, w)
      else (Inr (), self, w))"
  by (simp add: refresh_token_if_needed_def step_simps)

lemma refresh_credential_inv:
  assumes "credential_inv self"
    and "refresh_token_if_needed ev now (self, w) = (r, self', w')"
  shows "credential_inv self'"
proof (cases "\<not> dev_mode self \<and> is_stale (expire_time self) now")
  case True
  with assms(2) have "login ev (self, w) = (r, self', w')"
    by (simp add: refresh_unfold)
  with login_credential_inv [where ev = ev and self = self and w = w] assms(1)
  show ?thesis by simp
next
  case False
  with assms show ?thesis
    by (auto simp: refresh_unfold split: if_splits)
qed

lemma refresh_client1:
  "refresh_token_if_needed ev 0 (client1, w) = (Inr (), client1, w)"
  by (simp add: refresh_unfold client1_fields is_stale_def safety_margin_def)

text \<open>
  C1, as the code has it. When \<open>dev_mode\<close> is off and \<open>_refresh_token_if_needed\<close> returns
  without an error, the client holds a signer and an expiry. If the stored credential was
  not stale, nothing was done and the expiry is at least the margin of five minutes after
  the current time. If it was stale, \<open>login\<close> ran and the expiry is the \<open>Expiration\<close> that
  the credential service returned, which the code stores without comparing it with the
  clock.
\<close>

theorem refresh_guarantee:
  assumes "\<not> dev_mode self" and "credential_inv self"
    and "refresh_token_if_needed ev now (self, w) = (Inr x, self', w')"
  shows "aws_auth self' \<noteq> None \<and> expire_time self' \<noteq> None
    \<and> (\<not> is_stale (expire_time self) now \<longrightarrow>
          self' = self \<and> w' = w
          \<and> (\<exists>e. expire_time self' = Some e \<and> now + safety_margin \<le> e))
    \<and> (is_stale (expire_time self) now \<longrightarrow>
          (\<exists>cr c e. cognito_resp ev (length (log w) + 4) = Inr cr \<and> Credentials cr = Some c
             \<and> Expiration c = Some e \<and> expire_time self' = Some e))"
proof (cases "is_stale (expire_time self) now")
  case True
  with assms have "login ev (self, w) = (Inr x, self', w')"
    by (simp add: refresh_unfold)
  with login_success_inv [where ev = ev and self = self and w = w] True show ?thesis
    by auto
next
  case False
  with assms have eq: "self' = self" "w' = w"
    by (simp_all add: refresh_unfold)
  from False obtain e where "expire_time self = Some e" "now + safety_margin \<le> e"
    by (auto simp: is_stale_def split: option.splits)
  with eq False assms(2) show ?thesis
    by (auto simp: credential_inv_def)
qed

theorem refresh_guarantee_witness:
  "\<not> dev_mode client0 \<and> credential_inv client0 \<and> is_stale (expire_time client0) 0
   \<and> fst (refresh_token_if_needed (chain_env (issued 3600000000)) 0 (client0, world0)) = Inr ()
   \<and> expire_time (fst (snd (refresh_token_if_needed (chain_env (issued 3600000000)) 0
         (client0, world0)))) = Some 3600000000
   \<and> \<not> dev_mode client1 \<and> credential_inv client1 \<and> \<not> is_stale (expire_time client1) 0
   \<and> refresh_token_if_needed (chain_env (issued 0)) 0 (client1, world0)
       = (Inr (), client1, world0)
   \<and> 0 + safety_margin \<le> (3600000000 :: int)"
proof -
  let ?ev = "chain_env (issued 3600000000)"
  obtain s1 w1 where r0: "refresh_token_if_needed ?ev 0 (client0, world0) = (Inr (), s1, w1)"
    by (simp add: refresh_unfold client0_fields is_stale_def login_chain_env)
  have st: "is_stale (expire_time client0) 0"
    by (simp add: client0_fields is_stale_def)
  from refresh_guarantee [OF client0_fields(1) client0_fields(5) r0] st
  have "\<exists>cr c e. cognito_resp ?ev (length (log world0) + 4) = Inr cr \<and> Credentials cr = Some c
             \<and> Expiration c = Some e \<and> expire_time s1 = Some e"
    by blast
  then have e1: "expire_time s1 = Some 3600000000"
    by (auto simp: chain_env_def script_def issued_def)
  have r1: "refresh_token_if_needed (chain_env (issued 0)) 0 (client1, world0)
              = (Inr (), client1, world0)"
    by (rule refresh_client1)
  have fr: "\<not> is_stale (expire_time client1) 0"
    by (simp add: client1_fields is_stale_def safety_margin_def)
  from refresh_guarantee [OF client1_fields(1) client1_fields(5) r1] fr
  have "\<exists>e. expire_time client1 = Some e \<and> 0 + safety_margin \<le> e"
    by blast
  then have m: "0 + safety_margin \<le> (3600000000 :: int)"
    by (simp add: client1_fields)
  from r0 e1 r1 fr st m show ?thesis
    by (simp add: client0_fields client1_fields)
qed

text \<open>
  The claim that the stored expiry is always at least the margin ahead fails when the
  credential service issues a credential that lives for one minute: the freshness check
  logs in, returns without an error, and the stored expiry is four minutes short.
\<close>

theorem refresh_short_lived_counterexample:
  "\<not> dev_mode client0
   \<and> fst (refresh_token_if_needed (chain_env (issued 60000000)) 0 (client0, world0)) = Inr ()
   \<and> expire_time (fst (snd (refresh_token_if_needed (chain_env (issued 60000000)) 0
                              (client0, world0)))) = Some 60000000
   \<and> \<not> (0 + safety_margin \<le> (60000000 :: int))"
  by (simp add: refresh_unfold login_chain_env)
     (simp add: client0_def init_def is_stale_def safety_margin_def)

section \<open>Operations after the freshness check\<close>

lemma bind_refresh:
  "refresh_token_if_needed ev now st = (Inr x, st') \<Longrightarrow>
     bindM (refresh_token_if_needed ev now) f st = f x st'"
  by (simp add: bindM_def)

lemma bind_request_json:
  "bindM (sess_request ev rq) (\<lambda>resp. bindM (liftE (response_json resp)) f) (s, w) =
     (case doc_at ev (length (log w)) of
        Inl e \<Rightarrow> (Inl e, s, w\<lparr>log := log w @ [HttpCall rq]\<rparr>)
      | Inr r \<Rightarrow> f r (s, w\<lparr>log := log w @ [HttpCall rq]\<rparr>))"
  by (simp add: bind_sess_request bind_liftE doc_at_def split: sum.split)

lemma bind_request_json_last:
  "bindM (sess_request ev rq) (\<lambda>resp. liftE (response_json resp)) (s, w) =
     (doc_at ev (length (log w)), s, w\<lparr>log := log w @ [HttpCall rq]\<rparr>)"
  by (simp add: bind_sess_request liftE_apply doc_at_def split: sum.split)

lemma bind_assoc: "bindM (bindM m g) f = bindM m (\<lambda>x. bindM (g x) f)"
  by (auto simp: bindM_def fun_eq_iff split: prod.splits sum.splits)

lemma bind_if: "bindM (if c then a else b) f st = (if c then bindM a f st else bindM b f st)"
  by simp

lemmas op_simps = bind_assoc bind_if set_self_apply returnM_apply raiseM_apply liftE_apply
  bind_liftE bind_set_self bind_get_self bind_request_json bind_request_json_last
  bind_guard bind_headers bind_returnM bind_raiseM bind_refresh bind_cognito

lemma py_getitem_Inl_iff:
  "py_getitem d k = Inl e \<longleftrightarrow> \<not> has_field d k \<and> e = lookup_error d k"
  by (cases d) (auto simp: has_field_def lookup_error_def split: option.splits)

lemma class_of_lookup_error [simp]: "class_of (lookup_error d k) \<noteq> CException"
  "class_of (lookup_error d k) \<noteq> CClientError"
  by (cases d; simp add: lookup_error_def)+

lemma lookup_error_JObj [simp]: "lookup_error (JObj kvs) k = KeyError k"
  by (simp add: lookup_error_def)

lemma response_json_Inl_iff:
  "response_json r = Inl e \<longleftrightarrow> body r = None \<and> e = JSONDecodeError"
  by (auto simp: response_json_def split: option.splits)

lemma doc_at_Inl:
  "doc_at ev i = Inl e \<Longrightarrow> class_of e = CRequestException \<or> class_of e = CJSONDecodeError"
  by (auto simp: doc_at_def response_json_def split: sum.splits option.splits)

lemma status_at_Inr:
  "status_at ev i = Inr v \<Longrightarrow> \<exists>d. doc_at ev i = Inr d \<and> py_getitem d ''statusCode'' = Inr v"
  by (auto simp: status_at_def split: sum.splits)

lemma bootstrap_okD:
  "bootstrap_ok ev n \<Longrightarrow>
     \<exists>d. doc_at ev n = Inr d \<and> py_getitem d ''statusCode'' = Inr (JInt 200)"
  by (simp add: bootstrap_ok_def status_at_Inr)

lemma primary_login_okD:
  "primary_login_ok ev n \<Longrightarrow>
     \<exists>d u si lt. doc_at ev (Suc n) = Inr d \<and> py_getitem d ''statusCode'' = Inr (JInt 200)
        \<and> py_getitem d ''UID'' = Inr u \<and> py_getitem d ''sessionInfo'' = Inr si
        \<and> py_getitem si ''login_token'' = Inr lt"
  by (auto simp: primary_login_ok_def py_getitem_has_field split: sum.splits)

lemma jwt_okD:
  "jwt_ok ev n \<Longrightarrow>
     \<exists>d t. doc_at ev (Suc (Suc n)) = Inr d \<and> py_getitem d ''statusCode'' = Inr (JInt 200)
        \<and> py_getitem d ''id_token'' = Inr t"
  by (auto simp: jwt_ok_def py_getitem_has_field eval_nat_numeral split: sum.splits)

lemma token_okD:
  "token_ok ev n \<Longrightarrow>
     \<exists>d i t. doc_at ev (Suc (Suc (Suc n))) = Inr d \<and> py_getitem d ''IdentityId'' = Inr i
        \<and> py_getitem d ''Token'' = Inr t"
  by (auto simp: token_ok_def py_getitem_has_field eval_nat_numeral split: sum.splits)

lemma login_bootstrap_error:
  assumes "status_at ev (length (log w)) = Inr v" and "v \<noteq> JInt 200"
  shows "fst (login ev (self, w)) = Inl (Exception ''bootstrap failed'')"
proof -
  from status_at_Inr [OF assms(1)] obtain d
    where "doc_at ev (length (log w)) = Inr d" "py_getitem d ''statusCode'' = Inr v"
    by blast
  with assms(2) show ?thesis
    unfolding login_def by (simp add: op_simps)
qed

lemma login_primary_error:
  assumes "bootstrap_ok ev (length (log w))"
    and "status_at ev (Suc (length (log w))) = Inr v" and "v \<noteq> JInt 200"
  shows "fst (login ev (self, w)) = Inl (Exception ''login failed'')"
proof -
  from bootstrap_okD [OF assms(1)] obtain d0
    where "doc_at ev (length (log w)) = Inr d0" "py_getitem d0 ''statusCode'' = Inr (JInt 200)"
    by blast
  moreover from status_at_Inr [OF assms(2)] obtain d
    where "doc_at ev (Suc (length (log w))) = Inr d" "py_getitem d ''statusCode'' = Inr v"
    by blast
  ultimately show ?thesis
    using assms(3) unfolding login_def by (simp add: op_simps)
qed

lemma login_jwt_error:
  assumes "bootstrap_ok ev (length (log w))" and "primary_login_ok ev (length (log w))"
    and "status_at ev (Suc (Suc (length (log w)))) = Inr v" and "v \<noteq> JInt 200"
  shows "fst (login ev (self, w)) = Inl (Exception ''unable to obtain JWT'')"
proof -
  from bootstrap_okD [OF assms(1)] obtain d0
    where "doc_at ev (length (log w)) = Inr d0" "py_getitem d0 ''statusCode'' = Inr (JInt 200)"
    by blast
  moreover from primary_login_okD [OF assms(2)] obtain d1 u si lt
    where "doc_at ev (Suc (length (log w))) = Inr d1"
      "py_getitem d1 ''statusCode'' = Inr (JInt 200)" "py_getitem d1 ''UID'' = Inr u"
      "py_getitem d1 ''sessionInfo'' = Inr si" "py_getitem si ''login_token'' = Inr lt"
    by blast
  moreover from status_at_Inr [OF assms(3)] obtain d
    where "doc_at ev (Suc (Suc (length (log w)))) = Inr d" "py_getitem d ''statusCode'' = Inr v"
    by blast
  ultimately show ?thesis
    using assms(4) unfolding login_def by (simp add: op_simps)
qed

lemma login_token_error:
  assumes "bootstrap_ok ev (length (log w))" and "primary_login_ok ev (length (log w))"
    and "jwt_ok ev (length (log w))" and "\<not> token_ok ev (length (log w))"
  shows "\<exists>e. fst (login ev (self, w)) = Inl e \<and> class_of e \<noteq> CException
           \<and> (\<forall>kvs. doc_at ev (length (log w) + 3) = Inr (JObj kvs)
                      \<and> map_of kvs ''IdentityId'' = None \<longrightarrow> e = KeyError ''IdentityId'')
           \<and> (\<forall>kvs. doc_at ev (length (log w) + 3) = Inr (JObj kvs)
                      \<and> map_of kvs ''IdentityId'' \<noteq> None \<and> map_of kvs ''Token'' = None
                    \<longrightarrow> e = KeyError ''Token'')"
proof -
  from bootstrap_okD [OF assms(1)] obtain d0
    where d0: "doc_at ev (length (log w)) = Inr d0"
      "py_getitem d0 ''statusCode'' = Inr (JInt 200)"
    by blast
  from primary_login_okD [OF assms(2)] obtain d1 u si lt
    where d1: "doc_at ev (Suc (length (log w))) = Inr d1"
      "py_getitem d1 ''statusCode'' = Inr (JInt 200)" "py_getitem d1 ''UID'' = Inr u"
      "py_getitem d1 ''sessionInfo'' = Inr si" "py_getitem si ''login_token'' = Inr lt"
    by blast
  from jwt_okD [OF assms(3)] obtain d2 t
    where d2: "doc_at ev (Suc (Suc (length (log w)))) = Inr d2"
      "py_getitem d2 ''statusCode'' = Inr (JInt 200)" "py_getitem d2 ''id_token'' = Inr t"
    by blast
  show ?thesis
  proof (cases "doc_at ev (Suc (Suc (Suc (length (log w)))))")
    case (Inl e)
    with d0 d1 d2 doc_at_Inl [OF Inl] show ?thesis
      unfolding login_def by (auto simp: op_simps eval_nat_numeral)
  next
    case (Inr d3)
    with assms(4) have nf: "\<not> has_field d3 ''IdentityId'' \<or> \<not> has_field d3 ''Token''"
      by (simp add: token_ok_def eval_nat_numeral)
    show ?thesis
    proof (cases "py_getitem d3 ''IdentityId''")
      case (Inl e)
      then have "e = lookup_error d3 ''IdentityId''"
        by (simp add: py_getitem_Inl_iff)
      with Inl Inr d0 d1 d2 show ?thesis
        unfolding login_def by (auto simp: op_simps eval_nat_numeral)
    next
      case i: (Inr i)
      with nf have "\<not> has_field d3 ''Token''"
        by (auto simp: py_getitem_has_field)
      then have "py_getitem d3 ''Token'' = Inl (lookup_error d3 ''Token'')"
        by (simp add: py_getitem_Inl_iff)
      with i Inr d0 d1 d2 show ?thesis
        unfolding login_def by (auto simp: op_simps eval_nat_numeral)
    qed
  qed
qed

lemma login_credentials_error:
  assumes "bootstrap_ok ev (length (log w))" and "primary_login_ok ev (length (log w))"
    and "jwt_ok ev (length (log w))" and "token_ok ev (length (log w))"
    and "\<not> credentials_ok ev (length (log w))"
  shows "\<exists>e. fst (login ev (self, w)) = Inl e
           \<and> (class_of e = CClientError \<or> class_of e = CKeyError)
           \<and> (\<forall>m. cognito_resp ev (length (log w) + 4) = Inl m \<longrightarrow> e = ClientError m)
           \<and> (\<forall>cr. cognito_resp ev (length (log w) + 4) = Inr cr \<and> Credentials cr = None
                  \<longrightarrow> e = KeyError ''Credentials'')"
proof -
  from bootstrap_okD [OF assms(1)] obtain d0
    where d0: "doc_at ev (length (log w)) = Inr d0"
      "py_getitem d0 ''statusCode'' = Inr (JInt 200)"
    by blast
  from primary_login_okD [OF assms(2)] obtain d1 u si lt
    where d1: "doc_at ev (Suc (length (log w))) = Inr d1"
      "py_getitem d1 ''statusCode'' = Inr (JInt 200)" "py_getitem d1 ''UID'' = Inr u"
      "py_getitem d1 ''sessionInfo'' = Inr si" "py_getitem si ''login_token'' = Inr lt"
    by blast
  from jwt_okD [OF assms(3)] obtain d2 t
    where d2: "doc_at ev (Suc (Suc (length (log w)))) = Inr d2"
      "py_getitem d2 ''statusCode'' = Inr (JInt 200)" "py_getitem d2 ''id_token'' = Inr t"
    by blast
  from token_okD [OF assms(4)] obtain d3 i tk
    where d3: "doc_at ev (Suc (Suc (Suc (length (log w))))) = Inr d3"
      "py_getitem d3 ''IdentityId'' = Inr i" "py_getitem d3 ''Token'' = Inr tk"
    by blast
  from assms(5) d0 d1 d2 d3 show ?thesis
    unfolding login_def
    by (auto simp: op_simps eval_nat_numeral credentials_ok_def member_def
        split: sum.splits option.splits)
qed

lemma list_vehicles_after_refresh:
  assumes "\<not> dev_mode self"
    and "refresh_token_if_needed ev now (self, w) = (Inr (), self1, w1)"
  shows "fst (list_vehicles ev now (self, w)) =
           (case doc_at ev (length (log w1)) of
              Inl e \<Rightarrow> Inl e
            | Inr r \<Rightarrow> py_getitem r ''vehicles'')"
  using assms unfolding list_vehicles_def
  by (simp add: op_simps split: sum.split)

lemma get_vehicle_after_refresh:
  assumes "\<not> dev_mode self"
    and "refresh_token_if_needed ev now (self, w) = (Inr (), self1, w1)"
  shows "fst (get_vehicle ev now vin (self, w)) = doc_at ev (length (log w1))"
    and "fst (get_vehicle_status ev now vin (self, w)) = doc_at ev (length (log w1))"
    and "fst (get_vehicle_location ev now vin (self, w)) = doc_at ev (length (log w1))"
  using assms unfolding get_vehicle_def get_vehicle_status_def get_vehicle_location_def
  by (simp_all add: op_simps)

lemma doc_at_answer:
  "http_resp ev i = Inr \<lparr>status_code = c, body = b\<rparr> \<Longrightarrow>
     doc_at ev i = (case b of None \<Rightarrow> Inl JSONDecodeError | Some d \<Rightarrow> Inr d)"
  by (simp add: doc_at_def response_json_def)

lemma command_no_token:
  assumes "\<not> dev_mode self"
    and "refresh_token_if_needed ev now (self, w) = (Inr (), self', w')"
    and "doc_at ev (length (log w')) = Inr r"
    and "\<not> has_field r ''token''"
  shows "command ev now vin cmd (self, w) =
           (Inl (if py_contains ''token'' r = Inr False
                 then Exception ''authentication failed'' else TypeError),
            self', pin_world ev self' w')"
  using assms unfolding command_def
  by (cases r) (simp_all add: op_simps pin_world_def has_field_def)

lemma command_with_answer:
  assumes "\<not> dev_mode self"
    and "refresh_token_if_needed ev now (self, w) = (Inr (), self', w')"
    and "doc_at ev (length (log w')) = Inr (JObj pkvs)"
    and "map_of pkvs ''token'' = Some tok"
    and "doc_at ev (Suc (length (log w'))) = Inr r"
  shows "command ev now vin cmd (self, w) =
           (case r of
              JObj kvs \<Rightarrow>
                if map_of kvs ''responseStatus'' = Some (JStr ''pending'') then Inr ()
                else Inl (rejection ev kvs)
            | _ \<Rightarrow>
                Inl (if py_contains ''responseStatus'' r = Inr False then AttributeError
                     else TypeError),
            self', command_world ev self' vin cmd tok (pin_world ev self' w'))"
  using assms unfolding command_def
  by (cases r)
    (simp_all add: op_simps pin_world_def command_world_def rejection_def split: option.split)

lemma command_with_token:
  assumes "\<not> dev_mode self"
    and "refresh_token_if_needed ev now (self, w) = (Inr (), self1, w1)"
    and "doc_at ev (length (log w1)) = Inr (JObj pkvs)"
    and "map_of pkvs ''token'' = Some tok"
    and "doc_at ev (Suc (length (log w1))) = Inr (JObj kvs)"
  shows "command ev now vin cmd (self, w) =
           (if map_of kvs ''responseStatus'' = Some (JStr ''pending'') then Inr ()
            else Inl (rejection ev kvs),
            self1, command_world ev self1 vin cmd tok (pin_world ev self1 w1))"
  using assms unfolding command_def
  by (simp add: op_simps pin_world_def command_world_def rejection_def split: option.split)

section \<open>Properties of \<open>command\<close>\<close>

lemma doc_at_script:
  "doc_at (script [answer c0 d0] cr) 0 = Inr d0"
  "doc_at (script [answer c0 d0, answer c1 d1] cr) 0 = Inr d0"
  "doc_at (script [answer c0 d0, answer c1 d1] cr) (Suc 0) = Inr d1"
  by (simp_all add: doc_at_def script_def answer_def response_json_def)

text \<open>
  C5, as the code has it. When the freshness check has passed and the answer of the PIN
  endpoint is a document without a \<open>token\<close> field, \<open>command\<close> raises, and the only call
  it has made after the freshness check is the PIN request: the command endpoint is never
  called. The error is the one the code raises for a failed PIN authentication,
  \<open>Exception("authentication failed")\<close>, whenever \<open>'token' in r\<close> is false, which is so
  for every answer that is a JSON object, such as \<open>{}\<close>. For any other answer without the
  field (\<open>null\<close>, a number, a truth value, a list or a string that contains \<open>token\<close>) it
  is Python's \<open>TypeError\<close>.
\<close>

theorem command_pin_auth_failed:
  assumes "\<not> dev_mode self"
    and "refresh_token_if_needed ev now (self, w) = (Inr (), self', w')"
    and "doc_at ev (length (log w')) = Inr r"
    and "\<not> has_field r ''token''"
  shows "command ev now vin cmd (self, w) =
           (Inl (if py_contains ''token'' r = Inr False
                 then Exception ''authentication failed'' else TypeError),
            self', pin_world ev self' w')
         \<and> ((\<exists>kvs. r = JObj kvs) \<longrightarrow> py_contains ''token'' r = Inr False)"
proof -
  have "py_contains ''token'' r = Inr False" if "r = JObj kvs" for kvs
    using that assms(4) by (simp add: has_field_def)
  with command_no_token [OF assms] show ?thesis
    by blast
qed

theorem command_pin_auth_failed_witness:
  "\<not> dev_mode client1
   \<and> refresh_token_if_needed (script [answer 200 (JObj [])] (issued 0)) 0 (client1, world0)
       = (Inr (), client1, world0)
   \<and> doc_at (script [answer 200 (JObj [])] (issued 0)) (length (log world0)) = Inr (JObj [])
   \<and> \<not> has_field (JObj []) ''token''
   \<and> command (script [answer 200 (JObj [])] (issued 0)) 0 ''VIN1'' remote_start (client1, world0)
       = (Inl (Exception ''authentication failed''), client1,
          pin_world (script [answer 200 (JObj [])] (issued 0)) client1 world0)
   \<and> log (pin_world (script [answer 200 (JObj [])] (issued 0)) client1 world0)
       = [HttpCall (pin_request (script [answer 200 (JObj [])] (issued 0)) client1
            (aws_headers ''k3'' (clientrequestid 0)))]"
proof -
  let ?ev = "script [answer 200 (JObj [])] (issued 0)"
  have d: "doc_at ?ev (length (log world0)) = Inr (JObj [])"
    by (simp add: world0_def doc_at_script)
  have nf: "\<not> has_field (JObj []) ''token''"
    by (simp add: has_field_def)
  from command_pin_auth_failed [OF client1_fields(1) refresh_client1 d nf,
      of "''VIN1''" remote_start]
  have "command ?ev 0 ''VIN1'' remote_start (client1, world0)
       = (Inl (Exception ''authentication failed''), client1, pin_world ?ev client1 world0)"
    by auto
  moreover have "log (pin_world ?ev client1 world0)
       = [HttpCall (pin_request ?ev client1 (aws_headers ''k3'' (clientrequestid 0)))]"
    by (simp add: pin_world_def world0_def client1_fields brand0_def script_def)
  ultimately show ?thesis
    using d nf by (simp add: client1_fields refresh_client1)
qed

text \<open>
  The claim that a PIN answer without a \<open>token\<close> field always fails with the error of a
  failed PIN authentication does not hold for an answer that is not an object: with the
  answer \<open>null\<close>, \<open>'token' in r\<close> itself raises \<open>TypeError\<close>.
\<close>

theorem command_pin_null_counterexample:
  "\<not> dev_mode client1
   \<and> doc_at (script [answer 200 JNull] (issued 0)) (length (log world0)) = Inr JNull
   \<and> \<not> has_field JNull ''token''
   \<and> fst (command (script [answer 200 JNull] (issued 0)) 0 ''VIN1'' remote_start
            (client1, world0)) = Inl TypeError
   \<and> TypeError \<noteq> Exception ''authentication failed''"
proof -
  let ?ev = "script [answer 200 JNull] (issued 0)"
  have d: "doc_at ?ev (length (log world0)) = Inr JNull"
    by (simp add: world0_def doc_at_script)
  have nf: "\<not> has_field JNull ''token''"
    by (simp add: has_field_def)
  from command_no_token [OF client1_fields(1) refresh_client1 d nf, of "''VIN1''" remote_start]
  have "fst (command ?ev 0 ''VIN1'' remote_start (client1, world0)) = Inl TypeError"
    by simp
  with d nf show ?thesis
    by (simp add: client1_fields)
qed

text \<open>
  C6, as the code has it. When the freshness check has passed and the PIN endpoint has
  granted a token, the answer \<open>r\<close> of the command endpoint decides. For an answer that is
  a JSON object, \<open>command\<close> succeeds exactly when \<open>r\<close> has a \<open>responseStatus\<close> field equal
  to \<open>"pending"\<close>; otherwise it raises the rejection error, whose message carries \<open>r\<close>'s
  \<open>debugMsg\<close> when the field is present and \<open>unknown error\<close> when it is not. For an answer
  that is not an object, \<open>command\<close> never succeeds and raises Python's own error:
  \<open>AttributeError\<close> when \<open>'responseStatus' in r\<close> is false, \<open>TypeError\<close> otherwise.
\<close>

theorem command_response_decides:
  assumes "\<not> dev_mode self"
    and "refresh_token_if_needed ev now (self, w) = (Inr (), self', w')"
    and "doc_at ev (length (log w')) = Inr (JObj pkvs)"
    and "map_of pkvs ''token'' = Some tok"
    and "doc_at ev (Suc (length (log w'))) = Inr r"
  shows "fst (command ev now vin cmd (self, w)) =
           (case r of
              JObj kvs \<Rightarrow>
                if map_of kvs ''responseStatus'' = Some (JStr ''pending'') then Inr ()
                else Inl (Exception (''command queuing failed: ''
                       @ (case map_of kvs ''debugMsg'' of
                            None \<Rightarrow> ''unknown error''
                          | Some d \<Rightarrow> py_str (py_repr ev) d)))
            | _ \<Rightarrow>
                Inl (if py_contains ''responseStatus'' r = Inr False then AttributeError
                     else TypeError))"
  using command_with_answer [OF assms] by (cases r) (simp_all add: rejection_def)

theorem command_response_decides_witness:
  "\<not> dev_mode client1
   \<and> fst (command (script [answer 200 pin_doc, answer 200 pending_doc] (issued 0)) 0 ''VIN1''
            remote_start (client1, world0)) = Inr ()
   \<and> fst (command (script [answer 200 pin_doc, answer 200 offline_doc] (issued 0)) 0 ''VIN1''
            remote_start (client1, world0))
       = Inl (Exception ''command queuing failed: vehicle offline'')
   \<and> fst (command (script [answer 200 pin_doc, answer 200 (JObj [])] (issued 0)) 0 ''VIN1''
            remote_start (client1, world0))
       = Inl (Exception ''command queuing failed: unknown error'')
   \<and> fst (command (script [answer 200 pin_doc, answer 200 JNull] (issued 0)) 0 ''VIN1''
            remote_start (client1, world0))
       = Inl TypeError"
proof -
  have p: "map_of [(''token'', JStr ''pt'')] ''token'' = Some (JStr ''pt'')"
    by simp
  have d0: "doc_at (script [answer 200 pin_doc, answer 200 d] (issued 0)) (length (log world0))
              = Inr (JObj [(''token'', JStr ''pt'')])" for d
    by (simp add: world0_def doc_at_script pin_doc_def)
  have d1: "doc_at (script [answer 200 pin_doc, answer 200 d] (issued 0))
              (Suc (length (log world0))) = Inr d" for d
    by (simp add: world0_def doc_at_script)
  note t = command_response_decides [OF client1_fields(1) refresh_client1 d0 p d1,
      of _ "''VIN1''" remote_start]
  from t [of "JObj [(''responseStatus'', JStr ''pending'')]"]
    t [of "JObj [(''responseStatus'', JStr ''failed''), (''debugMsg'', JStr ''vehicle offline'')]"]
    t [of "JObj []"] t [of JNull]
  show ?thesis
    by (simp add: client1_fields pending_doc_def offline_doc_def)
qed

text \<open>
  The claim that every answer without a \<open>responseStatus\<close> field is rejected with the
  message \<open>unknown error\<close> does not hold for an answer that is not an object: with the
  answer \<open>[]\<close>, \<open>r.get\<close> raises \<open>AttributeError\<close>.
\<close>

theorem command_list_answer_counterexample:
  "\<not> dev_mode client1
   \<and> doc_at (script [answer 200 pin_doc, answer 200 (JList [])] (issued 0))
        (Suc (length (log world0))) = Inr (JList [])
   \<and> \<not> has_field (JList []) ''responseStatus''
   \<and> fst (command (script [answer 200 pin_doc, answer 200 (JList [])] (issued 0)) 0 ''VIN1''
            remote_start (client1, world0)) = Inl AttributeError
   \<and> AttributeError \<noteq> Exception ''command queuing failed: unknown error''"
proof -
  let ?ev = "script [answer 200 pin_doc, answer 200 (JList [])] (issued 0)"
  have p: "map_of [(''token'', JStr ''pt'')] ''token'' = Some (JStr ''pt'')"
    by simp
  have d0: "doc_at ?ev (length (log world0)) = Inr (JObj [(''token'', JStr ''pt'')])"
    by (simp add: world0_def doc_at_script pin_doc_def)
  have d1: "doc_at ?ev (Suc (length (log world0))) = Inr (JList [])"
    by (simp add: world0_def doc_at_script)
  from command_with_answer [OF client1_fields(1) refresh_client1 d0 p d1,
      of "''VIN1''" remote_start]
  have "fst (command ?ev 0 ''VIN1'' remote_start (client1, world0)) = Inl AttributeError"
    by simp
  with d1 show ?thesis
    by (simp add: client1_fields has_field_def)
qed

section \<open>Properties of the read operations\<close>

text \<open>
  C7, as the code has it. After the freshness check, \<open>list_vehicles\<close> returns the
  \<open>vehicles\<close> entry of the answer and raises when the answer has none; the three
  per-vehicle reads return the whole document. A transport failure or a body that is not
  JSON raises. The HTTP status code is never looked at: an answer with any status whose
  body parses is treated as a good one.
\<close>

theorem reads_do_not_check_status:
  assumes "\<not> dev_mode self"
    and "refresh_token_if_needed ev now (self, w) = (Inr (), self1, w1)"
  shows "fst (list_vehicles ev now (self, w))
           = (case doc_at ev (length (log w1)) of
                Inl e \<Rightarrow> Inl e
              | Inr r \<Rightarrow> py_getitem r ''vehicles'')
    \<and> fst (get_vehicle ev now vin (self, w)) = doc_at ev (length (log w1))
    \<and> fst (get_vehicle_status ev now vin (self, w)) = doc_at ev (length (log w1))
    \<and> fst (get_vehicle_location ev now vin (self, w)) = doc_at ev (length (log w1))
    \<and> (\<not> has_field r ''vehicles'' \<longrightarrow> py_getitem r ''vehicles'' = Inl (lookup_error r ''vehicles''))
    \<and> (http_resp ev (length (log w1)) = Inr \<lparr>status_code = c, body = Some d\<rparr>
          \<longrightarrow> doc_at ev (length (log w1)) = Inr d)
    \<and> (http_resp ev (length (log w1)) = Inr \<lparr>status_code = c, body = None\<rparr>
          \<longrightarrow> doc_at ev (length (log w1)) = Inl JSONDecodeError)
    \<and> (http_resp ev (length (log w1)) = Inl m
          \<longrightarrow> doc_at ev (length (log w1)) = Inl (RequestException m))"
  using list_vehicles_after_refresh [OF assms] get_vehicle_after_refresh [OF assms]
  by (auto simp: py_getitem_Inl_iff doc_at_answer) (simp add: doc_at_def)

theorem reads_do_not_check_status_witness:
  "\<not> dev_mode client1
   \<and> refresh_token_if_needed server_error_env 0 (client1, world0) = (Inr (), client1, world0)
   \<and> \<not> has_field server_error_doc ''vehicles''
   \<and> http_resp server_error_env (length (log world0))
       = Inr \<lparr>status_code = 500, body = Some server_error_doc\<rparr>
   \<and> fst (list_vehicles server_error_env 0 (client1, world0)) = Inl (KeyError ''vehicles'')
   \<and> fst (get_vehicle server_error_env 0 ''VIN1'' (client1, world0)) = Inr server_error_doc
   \<and> fst (get_vehicle_status server_error_env 0 ''VIN1'' (client1, world0)) = Inr server_error_doc
   \<and> fst (get_vehicle_location server_error_env 0 ''VIN1'' (client1, world0))
       = Inr server_error_doc"
proof -
  have h: "http_resp server_error_env (length (log world0))
       = Inr \<lparr>status_code = 500, body = Some server_error_doc\<rparr>"
    by (simp add: server_error_env_def script_def answer_def world0_def)
  have nf: "\<not> has_field server_error_doc ''vehicles''"
    by (simp add: has_field_def server_error_doc_def)
  from reads_do_not_check_status [OF client1_fields(1) refresh_client1,
      of server_error_env world0 "''VIN1''" server_error_doc 500 server_error_doc] h nf
  show ?thesis
    by (simp add: client1_fields refresh_client1 lookup_error_def server_error_doc_def)
qed

text \<open>
  The claim that a non-2xx answer makes a read fail does not hold: \<open>get_vehicle\<close> returns
  the body of an answer with status 500 as its value.
\<close>

theorem get_vehicle_server_error_counterexample:
  "http_resp server_error_env 0 = Inr \<lparr>status_code = 500, body = Some server_error_doc\<rparr>
   \<and> \<not> (200 \<le> (500 :: nat) \<and> (500 :: nat) < 300)
   \<and> \<not> dev_mode client1
   \<and> fst (get_vehicle server_error_env 0 ''VIN1'' (client1, world0)) = Inr server_error_doc"
  by (simp add: get_vehicle_after_refresh [OF client1_fields(1) refresh_client1]
      server_error_env_def world0_def doc_at_script client1_fields)
     (simp add: script_def answer_def)

section \<open>Kinds of failure\<close>

lemmas env_eval = status_at_def doc_at_def bootstrap_ok_def primary_login_ok_def jwt_ok_def
  token_ok_def credentials_ok_def has_field_def script_def answer_def issued_def
  response_json_def bootstrap_doc_def login_doc_def jwt_doc_def token_doc_def refused_doc_def
  forbidden_doc_def world0_def eval_nat_numeral

lemma bootstrap_refused_env_checks:
  "status_at bootstrap_refused_env (length (log world0)) = Inr (JInt 403)"
  by (simp add: bootstrap_refused_env_def env_eval)

lemma login_refused_env_checks:
  "bootstrap_ok login_refused_env (length (log world0))"
  "status_at login_refused_env (Suc (length (log world0))) = Inr (JInt 403)"
  by (simp_all add: login_refused_env_def env_eval)

lemma jwt_refused_env_checks:
  "bootstrap_ok jwt_refused_env (length (log world0))"
  "primary_login_ok jwt_refused_env (length (log world0))"
  "status_at jwt_refused_env (Suc (Suc (length (log world0)))) = Inr (JInt 403)"
  by (simp_all add: jwt_refused_env_def env_eval)

lemma token_refused_env_checks:
  "bootstrap_ok token_refused_env (length (log world0))"
  "primary_login_ok token_refused_env (length (log world0))"
  "jwt_ok token_refused_env (length (log world0))"
  "\<not> token_ok token_refused_env (length (log world0))"
  "doc_at token_refused_env (length (log world0) + 3)
     = Inr (JObj [(''message'', JStr ''Forbidden'')])"
  "map_of [(''message'', JStr ''Forbidden'')] ''IdentityId'' = None"
  by (simp_all add: token_refused_env_def env_eval)

lemma token_missing_env_checks:
  "bootstrap_ok token_missing_env (length (log world0))"
  "primary_login_ok token_missing_env (length (log world0))"
  "jwt_ok token_missing_env (length (log world0))"
  "\<not> token_ok token_missing_env (length (log world0))"
  "doc_at token_missing_env (length (log world0) + 3)
     = Inr (JObj [(''IdentityId'', JStr ''eu:1'')])"
  "map_of [(''IdentityId'', JStr ''eu:1'')] ''IdentityId'' \<noteq> None"
  "map_of [(''IdentityId'', JStr ''eu:1'')] ''Token'' = None"
  by (simp_all add: token_missing_env_def env_eval)

lemma chain_env_checks:
  "bootstrap_ok (chain_env c) (length (log world0))"
  "primary_login_ok (chain_env c) (length (log world0))"
  "jwt_ok (chain_env c) (length (log world0))"
  "token_ok (chain_env c) (length (log world0))"
  "\<not> credentials_ok (chain_env (Inl m)) (length (log world0))"
  "cognito_resp (chain_env c) i = c"
  by (simp_all add: chain_env_def env_eval)

text \<open>
  C4, as the code has it. The three checked steps of \<open>login\<close>, the PIN authentication and
  the command submission all raise the same class, \<open>Exception\<close>, and differ only in the
  message (\<open>bootstrap failed\<close>, \<open>login failed\<close>, \<open>unable to obtain JWT\<close>,
  \<open>authentication failed\<close>, \<open>command queuing failed: ...\<close>). Token vending and credential
  issuance have no check of their own: a failure there surfaces as the error of the lookup
  or of the call that went wrong (\<open>KeyError\<close> for a missing \<open>IdentityId\<close>, \<open>Token\<close> or
  \<open>Credentials\<close>, the client error of the credential service), never as \<open>Exception\<close>.
\<close>

theorem failure_kinds:
  "(status_at ev (length (log w)) = Inr v \<and> v \<noteq> JInt 200
      \<longrightarrow> fst (login ev (self, w)) = Inl (Exception ''bootstrap failed''))
   \<and> (bootstrap_ok ev (length (log w))
        \<and> status_at ev (Suc (length (log w))) = Inr v \<and> v \<noteq> JInt 200
      \<longrightarrow> fst (login ev (self, w)) = Inl (Exception ''login failed''))
   \<and> (bootstrap_ok ev (length (log w)) \<and> primary_login_ok ev (length (log w))
        \<and> status_at ev (Suc (Suc (length (log w)))) = Inr v \<and> v \<noteq> JInt 200
      \<longrightarrow> fst (login ev (self, w)) = Inl (Exception ''unable to obtain JWT''))
   \<and> (bootstrap_ok ev (length (log w)) \<and> primary_login_ok ev (length (log w))
        \<and> jwt_ok ev (length (log w)) \<and> \<not> token_ok ev (length (log w))
      \<longrightarrow> (\<exists>e. fst (login ev (self, w)) = Inl e \<and> class_of e \<noteq> CException
             \<and> (\<forall>kvs. doc_at ev (length (log w) + 3) = Inr (JObj kvs)
                        \<and> map_of kvs ''IdentityId'' = None \<longrightarrow> e = KeyError ''IdentityId'')
             \<and> (\<forall>kvs. doc_at ev (length (log w) + 3) = Inr (JObj kvs)
                        \<and> map_of kvs ''IdentityId'' \<noteq> None \<and> map_of kvs ''Token'' = None
                      \<longrightarrow> e = KeyError ''Token'')))
   \<and> (bootstrap_ok ev (length (log w)) \<and> primary_login_ok ev (length (log w))
        \<and> jwt_ok ev (length (log w)) \<and> token_ok ev (length (log w))
        \<and> \<not> credentials_ok ev (length (log w))
      \<longrightarrow> (\<exists>e. fst (login ev (self, w)) = Inl e
             \<and> (class_of e = CClientError \<or> class_of e = CKeyError)
             \<and> (\<forall>m. cognito_resp ev (length (log w) + 4) = Inl m \<longrightarrow> e = ClientError m)
             \<and> (\<forall>cr. cognito_resp ev (length (log w) + 4) = Inr cr \<and> Credentials cr = None
                    \<longrightarrow> e = KeyError ''Credentials'')))
   \<and> (\<not> dev_mode self \<and> refresh_token_if_needed ev now (self, w) = (Inr (), self', w')
        \<and> doc_at ev (length (log w')) = Inr (JObj pkvs) \<and> map_of pkvs ''token'' = None
      \<longrightarrow> fst (command ev now vin cmd (self, w)) = Inl (Exception ''authentication failed''))
   \<and> (\<not> dev_mode self \<and> refresh_token_if_needed ev now (self, w) = (Inr (), self', w')
        \<and> doc_at ev (length (log w')) = Inr (JObj pkvs) \<and> map_of pkvs ''token'' = Some tok
        \<and> doc_at ev (Suc (length (log w'))) = Inr (JObj kvs)
        \<and> map_of kvs ''responseStatus'' \<noteq> Some (JStr ''pending'')
      \<longrightarrow> fst (command ev now vin cmd (self, w)) = Inl (rejection ev kvs))
   \<and> class_of (Exception msg) = CException
   \<and> class_of (rejection ev kvs) = CException"
proof (intro conjI impI)
  assume "status_at ev (length (log w)) = Inr v \<and> v \<noteq> JInt 200"
  then show "fst (login ev (self, w)) = Inl (Exception ''bootstrap failed'')"
    by (simp add: login_bootstrap_error)
next
  assume "bootstrap_ok ev (length (log w))
        \<and> status_at ev (Suc (length (log w))) = Inr v \<and> v \<noteq> JInt 200"
  then show "fst (login ev (self, w)) = Inl (Exception ''login failed'')"
    by (simp add: login_primary_error)
next
  assume "bootstrap_ok ev (length (log w)) \<and> primary_login_ok ev (length (log w))
        \<and> status_at ev (Suc (Suc (length (log w)))) = Inr v \<and> v \<noteq> JInt 200"
  then show "fst (login ev (self, w)) = Inl (Exception ''unable to obtain JWT'')"
    by (simp add: login_jwt_error)
next
  assume "bootstrap_ok ev (length (log w)) \<and> primary_login_ok ev (length (log w))
        \<and> jwt_ok ev (length (log w)) \<and> \<not> token_ok ev (length (log w))"
  then show "\<exists>e. fst (login ev (self, w)) = Inl e \<and> class_of e \<noteq> CException
             \<and> (\<forall>kvs. doc_at ev (length (log w) + 3) = Inr (JObj kvs)
                        \<and> map_of kvs ''IdentityId'' = None \<longrightarrow> e = KeyError ''IdentityId'')
             \<and> (\<forall>kvs. doc_at ev (length (log w) + 3) = Inr (JObj kvs)
                        \<and> map_of kvs ''IdentityId'' \<noteq> None \<and> map_of kvs ''Token'' = None
                      \<longrightarrow> e = KeyError ''Token'')"
    using login_token_error [of ev w self] by blast
next
  assume "bootstrap_ok ev (length (log w)) \<and> primary_login_ok ev (length (log w))
        \<and> jwt_ok ev (length (log w)) \<and> token_ok ev (length (log w))
        \<and> \<not> credentials_ok ev (length (log w))"
  then show "\<exists>e. fst (login ev (self, w)) = Inl e
             \<and> (class_of e = CClientError \<or> class_of e = CKeyError)
             \<and> (\<forall>m. cognito_resp ev (length (log w) + 4) = Inl m \<longrightarrow> e = ClientError m)
             \<and> (\<forall>cr. cognito_resp ev (length (log w) + 4) = Inr cr \<and> Credentials cr = None
                    \<longrightarrow> e = KeyError ''Credentials'')"
    using login_credentials_error [of ev w self] by blast
next
  assume a: "\<not> dev_mode self \<and> refresh_token_if_needed ev now (self, w) = (Inr (), self', w')
        \<and> doc_at ev (length (log w')) = Inr (JObj pkvs) \<and> map_of pkvs ''token'' = None"
  then have "\<not> has_field (JObj pkvs) ''token''"
    by (simp add: has_field_def)
  with a command_no_token [of self ev now w self' w' "JObj pkvs" vin cmd]
  show "fst (command ev now vin cmd (self, w)) = Inl (Exception ''authentication failed'')"
    by simp
next
  assume "\<not> dev_mode self \<and> refresh_token_if_needed ev now (self, w) = (Inr (), self', w')
        \<and> doc_at ev (length (log w')) = Inr (JObj pkvs) \<and> map_of pkvs ''token'' = Some tok
        \<and> doc_at ev (Suc (length (log w'))) = Inr (JObj kvs)
        \<and> map_of kvs ''responseStatus'' \<noteq> Some (JStr ''pending'')"
  then show "fst (command ev now vin cmd (self, w)) = Inl (rejection ev kvs)"
    using command_with_token [of self ev now w self' w' pkvs tok kvs vin cmd] by simp
next
  show "class_of (Exception msg) = CException" by simp
next
  show "class_of (rejection ev kvs) = CException" by (simp add: rejection_def)
qed

theorem failure_kinds_witness:
  "status_at bootstrap_refused_env (length (log world0)) = Inr (JInt 403)
   \<and> fst (login bootstrap_refused_env (client0, world0)) = Inl (Exception ''bootstrap failed'')
   \<and> status_at login_refused_env (Suc (length (log world0))) = Inr (JInt 403)
   \<and> fst (login login_refused_env (client0, world0)) = Inl (Exception ''login failed'')
   \<and> status_at jwt_refused_env (Suc (Suc (length (log world0)))) = Inr (JInt 403)
   \<and> fst (login jwt_refused_env (client0, world0)) = Inl (Exception ''unable to obtain JWT'')
   \<and> \<not> token_ok token_refused_env (length (log world0))
   \<and> fst (login token_refused_env (client0, world0)) = Inl (KeyError ''IdentityId'')
   \<and> \<not> token_ok token_missing_env (length (log world0))
   \<and> fst (login token_missing_env (client0, world0)) = Inl (KeyError ''Token'')
   \<and> \<not> credentials_ok (chain_env (Inl ''NotAuthorizedException'')) (length (log world0))
   \<and> fst (login (chain_env (Inl ''NotAuthorizedException'')) (client0, world0))
       = Inl (ClientError ''NotAuthorizedException'')
   \<and> fst (command (script [answer 200 (JObj [])] (issued 0)) 0 ''VIN1'' remote_start
            (client1, world0)) = Inl (Exception ''authentication failed'')
   \<and> fst (command (script [answer 200 pin_doc, answer 200 offline_doc] (issued 0)) 0 ''VIN1''
            remote_start (client1, world0))
       = Inl (Exception ''command queuing failed: vehicle offline'')"
proof -
  have v: "JInt 403 \<noteq> JInt 200" by simp
  note k1 = failure_kinds [where ev = bootstrap_refused_env and w = world0 and self = client0
      and v = "JInt 403", THEN conjunct1, rule_format]
  note k2 = failure_kinds [where ev = login_refused_env and w = world0 and self = client0
      and v = "JInt 403", THEN conjunct2, THEN conjunct1, rule_format]
  note k3 = failure_kinds [where ev = jwt_refused_env and w = world0 and self = client0
      and v = "JInt 403", THEN conjunct2, THEN conjunct2, THEN conjunct1, rule_format]
  note k4 = failure_kinds [where ev = token_refused_env and w = world0 and self = client0,
      THEN conjunct2, THEN conjunct2, THEN conjunct2, THEN conjunct1, rule_format]
  note k4' = failure_kinds [where ev = token_missing_env and w = world0 and self = client0,
      THEN conjunct2, THEN conjunct2, THEN conjunct2, THEN conjunct1, rule_format]
  note k5 = failure_kinds [where ev = "chain_env (Inl ''NotAuthorizedException'')"
      and w = world0 and self = client0,
      THEN conjunct2, THEN conjunct2, THEN conjunct2, THEN conjunct2, THEN conjunct1,
      rule_format]
  note k6 = failure_kinds [where ev = "script [answer 200 (JObj [])] (issued 0)"
      and w = world0 and self = client1 and now = 0 and self' = client1 and w' = world0
      and pkvs = "[]" and vin = "''VIN1''" and cmd = remote_start,
      THEN conjunct2, THEN conjunct2, THEN conjunct2, THEN conjunct2, THEN conjunct2,
      THEN conjunct1, rule_format]
  note k7 = failure_kinds [where ev = "script [answer 200 pin_doc, answer 200 offline_doc] (issued 0)"
      and w = world0 and self = client1 and now = 0 and self' = client1 and w' = world0
      and pkvs = "[(''token'', JStr ''pt'')]" and tok = "JStr ''pt''"
      and kvs = "[(''responseStatus'', JStr ''failed''), (''debugMsg'', JStr ''vehicle offline'')]"
      and vin = "''VIN1''" and cmd = remote_start,
      THEN conjunct2, THEN conjunct2, THEN conjunct2, THEN conjunct2, THEN conjunct2,
      THEN conjunct2, THEN conjunct1, rule_format]
  have c1: "fst (login bootstrap_refused_env (client0, world0))
              = Inl (Exception ''bootstrap failed'')"
    using k1 bootstrap_refused_env_checks v by blast
  have c2: "fst (login login_refused_env (client0, world0)) = Inl (Exception ''login failed'')"
    using k2 login_refused_env_checks v by blast
  have c3: "fst (login jwt_refused_env (client0, world0))
              = Inl (Exception ''unable to obtain JWT'')"
    using k3 jwt_refused_env_checks v by blast
  from k4 token_refused_env_checks(1-4)
  obtain e4 where e4: "fst (login token_refused_env (client0, world0)) = Inl e4"
    "\<forall>kvs. doc_at token_refused_env (length (log world0) + 3) = Inr (JObj kvs)
        \<and> map_of kvs ''IdentityId'' = None \<longrightarrow> e4 = KeyError ''IdentityId''"
    by blast
  from e4(2) token_refused_env_checks(5,6) have "e4 = KeyError ''IdentityId''"
    by blast
  with e4(1) have c4: "fst (login token_refused_env (client0, world0))
                         = Inl (KeyError ''IdentityId'')"
    by simp
  from k4' token_missing_env_checks(1-4)
  obtain e4' where e4': "fst (login token_missing_env (client0, world0)) = Inl e4'"
    "\<forall>kvs. doc_at token_missing_env (length (log world0) + 3) = Inr (JObj kvs)
        \<and> map_of kvs ''IdentityId'' \<noteq> None \<and> map_of kvs ''Token'' = None
      \<longrightarrow> e4' = KeyError ''Token''"
    by blast
  from e4'(2) token_missing_env_checks(5-7) have "e4' = KeyError ''Token''"
    by blast
  with e4'(1) have c4': "fst (login token_missing_env (client0, world0))
                          = Inl (KeyError ''Token'')"
    by simp
  from k5 chain_env_checks(1-5)
  obtain e5 where e5: "fst (login (chain_env (Inl ''NotAuthorizedException'')) (client0, world0))
                         = Inl e5"
    "\<forall>m. cognito_resp (chain_env (Inl ''NotAuthorizedException'')) (length (log world0) + 4)
            = Inl m \<longrightarrow> e5 = ClientError m"
    by blast
  from e5(2) have "e5 = ClientError ''NotAuthorizedException''"
    by (simp add: chain_env_checks(6))
  with e5(1) have c5: "fst (login (chain_env (Inl ''NotAuthorizedException'')) (client0, world0))
                         = Inl (ClientError ''NotAuthorizedException'')"
    by simp
  have c6: "fst (command (script [answer 200 (JObj [])] (issued 0)) 0 ''VIN1'' remote_start
            (client1, world0)) = Inl (Exception ''authentication failed'')"
    by (rule k6) (simp add: client1_fields refresh_client1 world0_def doc_at_script)
  have c7: "fst (command (script [answer 200 pin_doc, answer 200 offline_doc] (issued 0)) 0
              ''VIN1'' remote_start (client1, world0))
       = Inl (rejection (script [answer 200 pin_doc, answer 200 offline_doc] (issued 0))
            [(''responseStatus'', JStr ''failed''), (''debugMsg'', JStr ''vehicle offline'')])"
    by (rule k7)
      (simp add: client1_fields refresh_client1 world0_def doc_at_script pin_doc_def
        offline_doc_def)
  from c1 c2 c3 c4 c4' c5 c6 c7 show ?thesis
    by (simp add: bootstrap_refused_env_checks login_refused_env_checks jwt_refused_env_checks
        token_refused_env_checks token_missing_env_checks chain_env_checks rejection_def)
qed

text \<open>
  The claim that each failing step has an error kind of its own does not hold: a refused
  bootstrap and a refused primary login raise the same class, and a token endpoint that
  answers without an identity raises a plain \<open>KeyError\<close>.
\<close>

theorem failure_kinds_counterexample:
  "fst (login bootstrap_refused_env (client0, world0)) = Inl (Exception ''bootstrap failed'')
   \<and> fst (login login_refused_env (client0, world0)) = Inl (Exception ''login failed'')
   \<and> class_of (Exception ''bootstrap failed'') = class_of (Exception ''login failed'')
   \<and> fst (login token_refused_env (client0, world0)) = Inl (KeyError ''IdentityId'')
   \<and> class_of (KeyError ''IdentityId'') = CKeyError"
proof -
  have "fst (login bootstrap_refused_env (client0, world0)) = Inl (Exception ''bootstrap failed'')"
    by (rule login_bootstrap_error [OF bootstrap_refused_env_checks]) simp
  moreover
  have "fst (login login_refused_env (client0, world0)) = Inl (Exception ''login failed'')"
    by (rule login_primary_error [OF login_refused_env_checks]) simp
  moreover
  from login_token_error [OF token_refused_env_checks(1-4), of client0]
    token_refused_env_checks(5,6)
  have "fst (login token_refused_env (client0, world0)) = Inl (KeyError ''IdentityId'')"
    by auto
  ultimately show ?thesis by simp
qed

end
